theory Spec2Isabelle
  imports Complex_Main "HOL-Library.Log_Nat"
begin

text \<open>
  A model of the car marketplace server: the listing document, the socket rooms and the
  events sent to them, the two notification services, the listing routes that create, update
  and mark listings, and the vendor routes for bulk updates, the dashboard, the leads and the
  pricing recommendations. The definitions come first, each named after the function or the
  route it models; the properties follow, grouped by subject.
\<close>

section \<open>Numbers and strings of the host language\<close>

text \<open>
  A JavaScript number is an IEEE 754 double. A finite double is modelled by the rational it
  stands for (the sign of zero is not kept), next to the three values that are not finite.
  Every arithmetic operation computes the exact result and rounds it to the nearest double,
  a tie going to the even significand: \<open>nearest_double\<close> does that for 53 bits of
  significand, exponents down to the subnormal range and overflow to an infinity.
  Counters, years and millisecond timestamps are integers that a double holds exactly.

  Dividing by zero does not fault in JavaScript: it yields an infinity or \<open>NaN\<close>.
\<close>

datatype number = Finite rat | PosInfinity | NegInfinity | NaN

definition binary_exponent :: "rat \<Rightarrow> int" where
  \<comment> \<open>for \<open>x \<noteq> 0\<close>, the \<open>e\<close> with \<open>2^e \<le> |x| < 2^(e+1)\<close>, from the bit lengths of the
      numerator and the denominator\<close>
  "binary_exponent x =
     (let k = bitlen (fst (quotient_of \<bar>x\<bar>)) - bitlen (snd (quotient_of \<bar>x\<bar>))
      in if power_int 2 k \<le> \<bar>x\<bar> then k else k - 1)"

definition quantum :: "rat \<Rightarrow> rat" where
  \<comment> \<open>the distance between neighbouring doubles at \<open>x\<close>\<close>
  "quantum x = power_int 2 (max (binary_exponent x - 52) (- 1074))"

definition round_even :: "rat \<Rightarrow> int" where
  \<comment> \<open>the nearest integer, a tie going to the even one\<close>
  "round_even y =
     (let f = \<lfloor>y\<rfloor>; d = y - of_int f
      in if d < 1 / 2 then f else if d > 1 / 2 then f + 1 else if even f then f else f + 1)"

definition nearest_double :: "rat \<Rightarrow> rat" where
  "nearest_double x = of_int (round_even (x / quantum x)) * quantum x"

definition js_number :: "rat \<Rightarrow> number" where
  \<comment> \<open>the Number value for an exact result: a rounded magnitude that reaches \<open>2^1024\<close>,
      that is, a binary exponent of 1024 or more, is an infinity\<close>
  "js_number x =
     (let d = nearest_double x
      in if d \<noteq> 0 \<and> binary_exponent d \<ge> 1024
         then (if d > 0 then PosInfinity else NegInfinity)
         else Finite d)"

definition js_minus :: "rat \<Rightarrow> rat \<Rightarrow> number" where
  "js_minus a b = js_number (a - b)"

definition js_div :: "rat \<Rightarrow> rat \<Rightarrow> number" where
  "js_div a b =
     (if b = 0 then (if a > 0 then PosInfinity else if a < 0 then NegInfinity else NaN)
      else js_number (a / b))"

fun js_divide :: "number \<Rightarrow> rat \<Rightarrow> number" where
  \<comment> \<open>\<open>x / b\<close> for a result \<open>x\<close> of an earlier operation\<close>
  "js_divide (Finite a) b = js_div a b"
| "js_divide PosInfinity b = (if b < 0 then NegInfinity else PosInfinity)"
| "js_divide NegInfinity b = (if b < 0 then PosInfinity else NegInfinity)"
| "js_divide NaN b = NaN"

fun js_times :: "number \<Rightarrow> rat \<Rightarrow> number" where
  \<comment> \<open>\<open>x * k\<close> for a positive constant \<open>k\<close>\<close>
  "js_times (Finite q) k = js_number (q * k)"
| "js_times x k = x"

fun js_less :: "number \<Rightarrow> rat \<Rightarrow> bool" where
  \<comment> \<open>\<open>x < k\<close>: false for \<open>NaN\<close>\<close>
  "js_less (Finite q) k = (q < k)"
| "js_less NegInfinity k = True"
| "js_less x k = False"

fun Math_abs :: "number \<Rightarrow> number" where
  "Math_abs (Finite q) = Finite (if q < 0 then - q else q)"
| "Math_abs NegInfinity = PosInfinity"
| "Math_abs x = x"

definition Math_round :: "rat \<Rightarrow> int" where
  \<comment> \<open>\<open>Math.round\<close> of a finite double: the nearest integer, a tie going up\<close>
  "Math_round x = \<lfloor>x + 1 / 2\<rfloor>"

definition digit :: "nat \<Rightarrow> char" where
  "digit d = ''0123456789'' ! (d mod 10)"

function decimal :: "nat \<Rightarrow> string" where
  "decimal n = (if n < 10 then [digit n] else decimal (n div 10) @ [digit (n mod 10)])"
  by pat_completeness auto
termination
  by (relation "measure id") auto

declare decimal.simps [simp del]

definition toFixed1_rat :: "rat \<Rightarrow> string" where
  \<comment> \<open>\<open>x.toFixed(1)\<close> for the double of value \<open>x\<close>, \<open>|x| < 10^21\<close>: the sign, then the
      integer \<open>n\<close> nearest to \<open>10 * |x|\<close> (the larger one on a tie), written with one
      digit after the point\<close>
  "toFixed1_rat x =
     (let s = (if x < 0 then ''-'' else '''');
          y = (if x < 0 then - x else x);
          n = nat \<lfloor>y * 10 + 1 / 2\<rfloor>
      in s @ decimal (n div 10) @ ''.'' @ [digit (n mod 10)])"

fun toFixed1 :: "number \<Rightarrow> string" where
  "toFixed1 (Finite q) = toFixed1_rat q"
| "toFixed1 PosInfinity = ''Infinity''"
| "toFixed1 NegInfinity = ''-Infinity''"
| "toFixed1 NaN = ''NaN''"

definition lower_char :: "char \<Rightarrow> char" where
  \<comment> \<open>the letters A to Z (codes 65 to 90) move to a to z; every other character stays\<close>
  "lower_char c =
     (let n = (of_char c :: nat) in if 65 \<le> n \<and> n \<le> 90 then char_of (n + 32) else c)"

definition toLowerCase :: "string \<Rightarrow> string" where
  "toLowerCase s = map lower_char s"

section \<open>The listing document (models/Car.ts)\<close>

text \<open>
  The fields of \<open>carSchema\<close> that the routes and services below read or write. Descriptive
  fields (mileage, condition, images, description and the other nested details) are left out;
  of \<open>vehicleDetails\<close> the required \<open>exteriorColor\<close> is kept, \<open>None\<close> when a document
  lacks it.
  The field \<open>make\<close> is \<open>make_field\<close> here (a record has a function \<open>make\<close> of its own).
  Dates are milliseconds since the epoch; an unset \<open>soldAt\<close> is \<open>None\<close>. \<open>createdAt\<close> and
  \<open>updatedAt\<close> are the fields the schema option \<open>timestamps: true\<close> adds.
\<close>

record location =
  city :: string
  state :: string

record price_entry =
  entry_price :: rat
  entry_date :: int

record car =
  car_id :: string
  make_field :: string
  model :: string
  year :: int
  price :: rat
  originalPrice :: "rat option"
  priceHistory :: "price_entry list"
  vehicleDetails_exteriorColor :: "string option"
  location :: location
  seller :: string
  sellerType :: string
  status :: string
  views :: int
  inquiries :: int
  favorites :: int
  listedAt :: int
  lastUpdated :: int
  soldAt :: "int option"
  featured :: bool
  urgent :: bool
  createdAt :: int
  updatedAt :: int

text \<open>
  The collection is the list of its documents, in natural order. The identifier of a
  listing and its \<open>seller\<close> are ObjectIds, kept as their hexadecimal strings. The identifiers
  that a request carries (\<open>req.params.id\<close>, \<open>req.user.id\<close>) are strings: the queries of
  the model layer (\<open>findById\<close>, \<open>find\<close>, \<open>updateMany\<close>) cast them to ObjectIds before
  comparing, an aggregation pipeline is sent to the store as it is written.
\<close>

type_synonym store = "car list"

definition findById :: "store \<Rightarrow> string \<Rightarrow> car option" where
  "findById cars i = find (\<lambda>c. car_id c = i) cars"

section \<open>Lead scoring (GET /api/vendors/leads)\<close>

definition day_ms :: int where
  "day_ms = 1000 * 60 * 60 * 24"

definition daysListed :: "int \<Rightarrow> car \<Rightarrow> int" where
  \<comment> \<open>\<open>Math.floor((Date.now() - listedAt) / day)\<close>\<close>
  "daysListed now c = (now - listedAt c) div day_ms"

definition inquiryRate :: "car \<Rightarrow> number" where
  "inquiryRate c =
     (if views c > 0
      then js_times (js_div (of_int (inquiries c)) (of_int (views c))) 100
      else Finite 0)"

definition urgencyScore :: "int \<Rightarrow> string" where
  "urgencyScore d = (if d > 30 then ''high'' else if d > 14 then ''medium'' else ''low'')"

record lead =
  lead_car :: car
  leadScore :: number
  urgency :: string
  lead_daysListed :: int

fun round_tenth :: "number \<Rightarrow> number" where
  \<comment> \<open>\<open>Math.round(x * 10) / 10\<close>; an infinity or \<open>NaN\<close> stays what it is\<close>
  "round_tenth (Finite r) =
     (case js_number (r * 10) of
        Finite t \<Rightarrow> js_div (of_int (Math_round t)) 10
      | x \<Rightarrow> x)"
| "round_tenth x = x"

definition lead_of :: "int \<Rightarrow> car \<Rightarrow> lead" where
  "lead_of now c =
     \<lparr> lead_car = c,
       leadScore = round_tenth (inquiryRate c),
       urgency = urgencyScore (daysListed now c),
       lead_daysListed = daysListed now c \<rparr>"

definition carsWithInquiries :: "store \<Rightarrow> string \<Rightarrow> nat \<Rightarrow> nat \<Rightarrow> car list" where
  \<comment> \<open>the vendor's listings with an inquiry, latest update first, one page of them\<close>
  "carsWithInquiries cars vendorId skip limit =
     take limit (drop skip
       (rev (sort_key lastUpdated (filter (\<lambda>c. seller c = vendorId \<and> inquiries c > 0) cars))))"

definition leadsWithScores :: "int \<Rightarrow> store \<Rightarrow> string \<Rightarrow> nat \<Rightarrow> nat \<Rightarrow> lead list" where
  "leadsWithScores now cars vendorId skip limit =
     map (lead_of now) (carsWithInquiries cars vendorId skip limit)"

section \<open>Rooms and events (socket.ts)\<close>

text \<open>
  An event is what one \<open>emit\<close> hands to the socket server: the room it goes to (\<open>None\<close>
  for \<open>io.emit\<close>, which reaches every connection), the event name and the payload, an object
  written as the list of its properties. The human-readable \<open>message\<close> property of the
  payloads is not modelled.

  The server object \<open>io\<close> is a module variable that \<open>initializeSocket\<close> sets. The flag
  \<open>io\<close> below says whether it has been set: \<open>getIO\<close> throws when it has not, and
  the \<open>emitTo\<close> helpers, which use the variable directly, fail on \<open>undefined\<close>.
\<close>

datatype jsval =
    JNull
  | JBool bool
  | JNum rat
  | JStr string
  | JDate int
  | JDoc car
  | JObj "(string \<times> jsval) list"

type_synonym payload = "(string \<times> jsval) list"

record event =
  room :: "string option"
  event_name :: string
  data :: payload

datatype error = SocketNotInitialized | TypeError | CastError

definition getIO :: "bool \<Rightarrow> error + unit" where
  "getIO io = (if \<not> io then Inl SocketNotInitialized else Inr ())"

definition emitToRoom :: "bool \<Rightarrow> string \<Rightarrow> string \<Rightarrow> payload \<Rightarrow> error + event list" where
  \<comment> \<open>\<open>io.to(roomName).emit(event, data)\<close>\<close>
  "emitToRoom io roomName ev d =
     (if \<not> io then Inl TypeError
      else Inr [\<lparr> room = Some roomName, event_name = ev, data = d \<rparr>])"

definition emitToLocation :: "bool \<Rightarrow> string \<Rightarrow> string \<Rightarrow> string \<Rightarrow> payload \<Rightarrow> error + event list" where
  "emitToLocation io cty st ev d = emitToRoom io (toLowerCase (cty @ ''_'' @ st)) ev d"

definition emitToMakeInterests :: "bool \<Rightarrow> string \<Rightarrow> string \<Rightarrow> payload \<Rightarrow> error + event list" where
  "emitToMakeInterests io mk ev d = emitToRoom io (''make_'' @ toLowerCase mk) ev d"

definition emitToUser :: "bool \<Rightarrow> string \<Rightarrow> string \<Rightarrow> payload \<Rightarrow> error + event list" where
  "emitToUser io userId ev d = emitToRoom io (''user_'' @ userId) ev d"

definition emitAll :: "string \<Rightarrow> payload \<Rightarrow> event list" where
  \<comment> \<open>\<open>io.emit(event, data)\<close> on the server that \<open>getIO\<close> returned\<close>
  "emitAll ev d = [\<lparr> room = None, event_name = ev, data = d \<rparr>]"

definition and_then :: "error + event list \<Rightarrow> error + event list \<Rightarrow> error + event list" where
  \<comment> \<open>one emitting statement after another: the first failure ends the function\<close>
  "and_then a b =
     (case a of Inl e \<Rightarrow> Inl e
      | Inr xs \<Rightarrow> (case b of Inl e \<Rightarrow> Inl e | Inr ys \<Rightarrow> Inr (xs @ ys)))"

section \<open>NotificationService (services/notificationService.ts)\<close>

definition notifyNewListing :: "bool \<Rightarrow> car \<Rightarrow> error + event list" where
  "notifyNewListing io c =
     (case getIO io of Inl e \<Rightarrow> Inl e
      | Inr _ \<Rightarrow>
          and_then (emitToLocation io (city (location c)) (state (location c))
                      ''newLocalListing'' [(''car'', JDoc c)])
         (and_then (emitToMakeInterests io (make_field c) ''newMakeListing'' [(''car'', JDoc c)])
                   (Inr (emitAll ''newCarListing'' [(''car'', JDoc c)]))))"

definition priceChange :: "rat \<Rightarrow> rat \<Rightarrow> number" where
  \<comment> \<open>\<open>((newPrice - oldPrice) / oldPrice) * 100\<close>\<close>
  "priceChange oldPrice newPrice = js_times (js_divide (js_minus newPrice oldPrice) oldPrice) 100"

definition notifyPriceChange :: "bool \<Rightarrow> store \<Rightarrow> string \<Rightarrow> rat \<Rightarrow> rat \<Rightarrow> error + event list" where
  "notifyPriceChange io cars carId oldPrice newPrice =
     (case findById cars carId of None \<Rightarrow> Inr []
      | Some c \<Rightarrow>
         (case getIO io of Inl e \<Rightarrow> Inl e
          | Inr _ \<Rightarrow>
             if js_less (priceChange oldPrice newPrice) (- 5)
             then and_then
                   (emitToLocation io (city (location c)) (state (location c)) ''priceAlert''
                      [(''car'', JDoc c), (''oldPrice'', JNum oldPrice), (''newPrice'', JNum newPrice),
                       (''discount'', JStr (toFixed1 (Math_abs (priceChange oldPrice newPrice))))])
                   (emitToMakeInterests io (make_field c) ''priceAlert''
                      [(''car'', JDoc c), (''oldPrice'', JNum oldPrice), (''newPrice'', JNum newPrice),
                       (''discount'', JStr (toFixed1 (Math_abs (priceChange oldPrice newPrice))))])
             else Inr []))"

definition notifyInquiry :: "bool \<Rightarrow> store \<Rightarrow> string \<Rightarrow> string \<Rightarrow> error + event list" where
  "notifyInquiry io cars carId inquirerName =
     (case findById cars carId of None \<Rightarrow> Inr []
      | Some c \<Rightarrow>
          emitToUser io (seller c) ''newInquiry''
            [(''carId'', JStr carId),
             (''car'', JObj [(''make'', JStr (make_field c)), (''model'', JStr (model c)),
                             (''year'', JNum (of_int (year c))), (''price'', JNum (price c))]),
             (''inquirer'', JStr inquirerName)])"

section \<open>VendorNotificationService (services/vendorNotificationService.ts)\<close>

definition notifyNewInquiry :: "bool \<Rightarrow> int \<Rightarrow> store \<Rightarrow> string \<Rightarrow> string \<Rightarrow> string \<Rightarrow> error + event list" where
  "notifyNewInquiry io now cars vendorId carId inquirerName =
     (case findById cars carId of None \<Rightarrow> Inr []
      | Some c \<Rightarrow>
          emitToUser io vendorId ''newInquiry''
            [(''type'', JStr ''inquiry''),
             (''carId'', JStr carId),
             (''car'', JObj [(''_id'', JStr (car_id c)), (''make'', JStr (make_field c)),
                             (''model'', JStr (model c)), (''year'', JNum (of_int (year c))),
                             (''price'', JNum (price c))]),
             (''inquirer'', JStr inquirerName),
             (''timestamp'', JDate now),
             (''priority'', JStr ''high'')])"

definition milestone_priority :: "string \<Rightarrow> string" where
  \<comment> \<open>the \<open>switch\<close> on the milestone; \<open>priority\<close> starts as low\<close>
  "milestone_priority milestone =
     (if milestone = ''high_views'' then ''medium''
      else if milestone = ''multiple_inquiries'' then ''high''
      else if milestone = ''trending'' then ''medium''
      else ''low'')"

definition notifyPerformanceMilestone ::
    "bool \<Rightarrow> int \<Rightarrow> store \<Rightarrow> string \<Rightarrow> string \<Rightarrow> string \<Rightarrow> error + event list" where
  "notifyPerformanceMilestone io now cars vendorId carId milestone =
     (case findById cars carId of None \<Rightarrow> Inr []
      | Some c \<Rightarrow>
          emitToUser io vendorId ''performanceMilestone''
            [(''type'', JStr ''milestone''),
             (''carId'', JStr carId),
             (''car'', JObj [(''_id'', JStr (car_id c)), (''make'', JStr (make_field c)),
                             (''model'', JStr (model c)), (''year'', JNum (of_int (year c))),
                             (''views'', JNum (of_int (views c))),
                             (''inquiries'', JNum (of_int (inquiries c)))]),
             (''milestone'', JStr milestone),
             (''timestamp'', JDate now),
             (''priority'', JStr (milestone_priority milestone))])"

section \<open>Listing routes (the cars router)\<close>

text \<open>
  A handler's outcome: the HTTP status it answers with, the events it emitted, and the
  collection it leaves. A handler runs on its own, one store operation after the other.
\<close>

record outcome =
  code :: nat
  emitted :: "event list"
  db :: store

fun update_first :: "('a \<Rightarrow> bool) \<Rightarrow> ('a \<Rightarrow> 'a) \<Rightarrow> 'a list \<Rightarrow> 'a list" where
  "update_first P f [] = []"
| "update_first P f (x # xs) = (if P x then f x # xs else x # update_first P f xs)"

definition findByIdAndUpdate :: "store \<Rightarrow> string \<Rightarrow> (car \<Rightarrow> car) \<Rightarrow> store" where
  \<comment> \<open>the first document with this id is changed; \<open>timestamps\<close> sets \<open>updatedAt\<close> in \<open>f\<close>\<close>
  "findByIdAndUpdate cars i f = update_first (\<lambda>c. car_id c = i) f cars"

definition record_inquiry :: "bool \<Rightarrow> int \<Rightarrow> store \<Rightarrow> string \<Rightarrow> string \<Rightarrow> outcome" where
  \<comment> \<open>POST /api/cars/:id/inquiry, for the authenticated user \<open>userName\<close>\<close>
  "record_inquiry io now cars carId userName =
     (case findById cars carId of
        None \<Rightarrow> \<lparr> code = 404, emitted = [], db = cars \<rparr>
      | Some c \<Rightarrow>
          let cars1 = findByIdAndUpdate cars carId
                        (\<lambda>d. d\<lparr> inquiries := inquiries d + 1, updatedAt := now \<rparr>)
          in (case and_then (notifyInquiry io cars1 (car_id c) userName)
                            (notifyNewInquiry io now cars1 (seller c) (car_id c) userName) of
                Inl e \<Rightarrow> \<lparr> code = 500, emitted = [], db = cars1 \<rparr>
              | Inr evs \<Rightarrow>
                 (case findById cars1 carId of
                    None \<Rightarrow> \<lparr> code = 200, emitted = evs, db = cars1 \<rparr>
                  | Some updatedCar \<Rightarrow>
                      if inquiries updatedCar = 5
                      then (case notifyPerformanceMilestone io now cars1 (seller c) (car_id c)
                                   ''multiple_inquiries'' of
                              Inl e \<Rightarrow> \<lparr> code = 500, emitted = evs, db = cars1 \<rparr>
                            | Inr ms \<Rightarrow> \<lparr> code = 200, emitted = evs @ ms, db = cars1 \<rparr>)
                      else \<lparr> code = 200, emitted = evs, db = cars1 \<rparr>)))"

text \<open>
  What the schema checks when a document is saved, for the fields kept here: a required
  string must be present and not empty, and a string with an \<open>enum\<close> must be one of its
  values. The fields left out of the record are taken to pass.
\<close>

definition exterior_colors :: "string list" where
  "exterior_colors =
     [''black'', ''white'', ''silver'', ''gray'', ''red'', ''blue'', ''green'', ''brown'', ''gold'',
      ''orange'', ''yellow'', ''purple'', ''other'']"

definition valid :: "car \<Rightarrow> bool" where
  "valid c =
     (make_field c \<noteq> [] \<and> model c \<noteq> [] \<and>
      (case vehicleDetails_exteriorColor c of None \<Rightarrow> False | Some x \<Rightarrow> x \<in> set exterior_colors) \<and>
      city (location c) \<noteq> [] \<and> state (location c) \<noteq> [] \<and>
      sellerType c \<in> set [''private'', ''dealer''] \<and>
      status c \<in> set [''active'', ''sold'', ''pending'', ''inactive''])"

definition save :: "int \<Rightarrow> store \<Rightarrow> car \<Rightarrow> car \<Rightarrow> store option" where
  \<comment> \<open>\<open>car.save()\<close> on the document \<open>loaded\<close>, now holding \<open>c\<close>: the document is validated
      (\<open>None\<close> is the validation error), the schema's timestamps set \<open>updatedAt\<close> when the
      handler has changed the document, the pre-save hook of the schema then sets
      \<open>lastUpdated\<close>, and the stored document is replaced\<close>
  "save now cars loaded c =
     (if \<not> valid c then None
      else Some (update_first (\<lambda>d. car_id d = car_id c)
                  (\<lambda>_. c\<lparr> lastUpdated := now,
                           updatedAt := (if c \<noteq> loaded then now else updatedAt c) \<rparr>) cars))"

text \<open>
  POST /api/cars. The body carries the fields of the listing; \<open>n_images\<close> is the array of
  image URLs (a missing array is the empty one). The new document gets the schema's defaults:
  status active, zero counters, \<open>listedAt\<close> now, no \<open>soldAt\<close>. \<open>newId\<close> is the identifier
  the store gives it. The handler passes \<open>exteriorColor\<close> at the top level, where the schema
  has no such path, and nothing for \<open>vehicleDetails\<close>.
\<close>

record car_create =
  n_make :: string
  n_model :: string
  n_year :: int
  n_price :: rat
  n_city :: string
  n_state :: string
  n_images :: "string list"

definition create_car ::
    "bool \<Rightarrow> int \<Rightarrow> store \<Rightarrow> string \<Rightarrow> string \<Rightarrow> string \<Rightarrow> car_create \<Rightarrow> outcome" where
  "create_car io now cars newId userId userRole body =
     (if n_images body = [] then \<lparr> code = 400, emitted = [], db = cars \<rparr>
      else
        let c = \<lparr> car_id = newId,
                  make_field = n_make body,
                  model = n_model body,
                  year = n_year body,
                  price = n_price body,
                  originalPrice = Some (n_price body),
                  priceHistory = [\<lparr> entry_price = n_price body, entry_date = now \<rparr>],
                  vehicleDetails_exteriorColor = None,
                  location = \<lparr> city = n_city body,
                               state = (if n_state body = [] then ''Unknown'' else n_state body) \<rparr>,
                  seller = userId,
                  sellerType = (if userRole = ''vendor'' then ''dealer'' else ''private''),
                  status = ''active'',
                  views = 0,
                  inquiries = 0,
                  favorites = 0,
                  listedAt = now,
                  lastUpdated = now,
                  soldAt = None,
                  featured = False,
                  urgent = False,
                  createdAt = now,
                  updatedAt = now \<rparr>
        in if \<not> valid c then \<lparr> code = 500, emitted = [], db = cars \<rparr>
           else (case notifyNewListing io c of
                   Inl e \<Rightarrow> \<lparr> code = 500, emitted = [], db = cars @ [c] \<rparr>
                 | Inr evs \<Rightarrow> \<lparr> code = 201, emitted = evs, db = cars @ [c] \<rparr>))"

text \<open>
  PUT /api/cars/:id. The handler does not validate the body and assigns all of it to the
  document, so the body can write any path of the schema. It is modelled by the values it
  gives to the fields of the record, each as the schema casts it; the identifier and the
  dates \<open>lastUpdated\<close>, \<open>createdAt\<close> and \<open>updatedAt\<close> are not among them.
\<close>

record car_update =
  u_make :: "string option"
  u_model :: "string option"
  u_year :: "int option"
  u_price :: "rat option"
  u_originalPrice :: "rat option"
  u_priceHistory :: "price_entry list option"
  u_exteriorColor :: "string option"
  u_location :: "location option"
  u_seller :: "string option"
  u_sellerType :: "string option"
  u_status :: "string option"
  u_views :: "int option"
  u_inquiries :: "int option"
  u_favorites :: "int option"
  u_listedAt :: "int option"
  u_soldAt :: "int option"
  u_featured :: "bool option"
  u_urgent :: "bool option"

definition assign :: "car \<Rightarrow> car_update \<Rightarrow> car" where
  \<comment> \<open>\<open>Object.assign(car, updateData)\<close>\<close>
  "assign c u =
     c\<lparr> make_field := (case u_make u of None \<Rightarrow> make_field c | Some v \<Rightarrow> v),
        model := (case u_model u of None \<Rightarrow> model c | Some v \<Rightarrow> v),
        year := (case u_year u of None \<Rightarrow> year c | Some v \<Rightarrow> v),
        price := (case u_price u of None \<Rightarrow> price c | Some v \<Rightarrow> v),
        originalPrice := (case u_originalPrice u of None \<Rightarrow> originalPrice c | Some v \<Rightarrow> Some v),
        priceHistory := (case u_priceHistory u of None \<Rightarrow> priceHistory c | Some v \<Rightarrow> v),
        vehicleDetails_exteriorColor :=
          (case u_exteriorColor u of None \<Rightarrow> vehicleDetails_exteriorColor c | Some v \<Rightarrow> Some v),
        location := (case u_location u of None \<Rightarrow> location c | Some v \<Rightarrow> v),
        seller := (case u_seller u of None \<Rightarrow> seller c | Some v \<Rightarrow> v),
        sellerType := (case u_sellerType u of None \<Rightarrow> sellerType c | Some v \<Rightarrow> v),
        status := (case u_status u of None \<Rightarrow> status c | Some v \<Rightarrow> v),
        views := (case u_views u of None \<Rightarrow> views c | Some v \<Rightarrow> v),
        inquiries := (case u_inquiries u of None \<Rightarrow> inquiries c | Some v \<Rightarrow> v),
        favorites := (case u_favorites u of None \<Rightarrow> favorites c | Some v \<Rightarrow> v),
        listedAt := (case u_listedAt u of None \<Rightarrow> listedAt c | Some v \<Rightarrow> v),
        soldAt := (case u_soldAt u of None \<Rightarrow> soldAt c | Some v \<Rightarrow> Some v),
        featured := (case u_featured u of None \<Rightarrow> featured c | Some v \<Rightarrow> v),
        urgent := (case u_urgent u of None \<Rightarrow> urgent c | Some v \<Rightarrow> v) \<rparr>"

definition price_changed :: "car \<Rightarrow> car_update \<Rightarrow> rat option" where
  \<comment> \<open>\<open>updateData.price && updateData.price !== car.price\<close>: the new price, when it holds\<close>
  "price_changed c u =
     (case u_price u of None \<Rightarrow> None
      | Some p \<Rightarrow> if p \<noteq> 0 \<and> p \<noteq> price c then Some p else None)"

definition update_car ::
    "bool \<Rightarrow> int \<Rightarrow> store \<Rightarrow> string \<Rightarrow> string \<Rightarrow> car_update \<Rightarrow> outcome" where
  "update_car io now cars carId userId updateData =
     (case findById cars carId of
        None \<Rightarrow> \<lparr> code = 404, emitted = [], db = cars \<rparr>
      | Some c \<Rightarrow>
          if seller c \<noteq> userId then \<lparr> code = 403, emitted = [], db = cars \<rparr>
          else
            (case price_changed c updateData of
               None \<Rightarrow>
                (case save now cars c (assign c updateData) of
                   None \<Rightarrow> \<lparr> code = 500, emitted = [], db = cars \<rparr>
                 | Some cars1 \<Rightarrow> \<lparr> code = 200, emitted = [], db = cars1 \<rparr>)
             | Some p \<Rightarrow>
                (case notifyPriceChange io cars (car_id c) (price c) p of
                   Inl e \<Rightarrow> \<lparr> code = 500, emitted = [], db = cars \<rparr>
                 | Inr evs \<Rightarrow>
                    (case save now cars c
                            (assign (c\<lparr> priceHistory := priceHistory c @
                                       [\<lparr> entry_price = p, entry_date = now \<rparr>] \<rparr>)
                               updateData) of
                       None \<Rightarrow> \<lparr> code = 500, emitted = evs, db = cars \<rparr>
                     | Some cars1 \<Rightarrow> \<lparr> code = 200, emitted = evs, db = cars1 \<rparr>))))"


section \<open>Vendor routes (the vendors router)\<close>

subsection \<open>POST /api/vendors/bulk-update\<close>

text \<open>
  \<open>updates\<close> is the object of the request body, as the list of its properties (a
  JavaScript object has each key once); \<open>None\<close> is a body without it, on which
  \<open>Object.keys\<close> throws. The store casts the values of a \<open>$set\<close> to the types of the schema
  before it writes, and refuses the update when a value cannot be cast. The casts belong to
  the store library and are parameters here.
\<close>

record casts =
  castString :: "jsval \<Rightarrow> string option"
  castNumber :: "jsval \<Rightarrow> rat option"
  castInteger :: "jsval \<Rightarrow> int option"
  castBoolean :: "jsval \<Rightarrow> bool option"
  castDate :: "jsval \<Rightarrow> int option"

definition validUpdates :: "string list" where
  "validUpdates = [''status'', ''featured'', ''urgent'', ''price'']"

definition updateData_of :: "payload \<Rightarrow> payload" where
  \<comment> \<open>the loop over \<open>Object.keys(updates)\<close> that copies the whitelisted properties\<close>
  "updateData_of updates = filter (\<lambda>kv. fst kv \<in> set validUpdates) updates"

definition set_path :: "casts \<Rightarrow> string \<Rightarrow> jsval \<Rightarrow> (car \<Rightarrow> car) option" where
  \<comment> \<open>\<open>$set\<close> of one path of the schema; a path the schema does not have is dropped\<close>
  "set_path cs k v =
     (if k = ''make'' then map_option (\<lambda>x c. c\<lparr> make_field := x \<rparr>) (castString cs v)
      else if k = ''model'' then map_option (\<lambda>x c. c\<lparr> model := x \<rparr>) (castString cs v)
      else if k = ''year'' then map_option (\<lambda>x c. c\<lparr> year := x \<rparr>) (castInteger cs v)
      else if k = ''price'' then map_option (\<lambda>x c. c\<lparr> price := x \<rparr>) (castNumber cs v)
      else if k = ''originalPrice''
        then map_option (\<lambda>x c. c\<lparr> originalPrice := Some x \<rparr>) (castNumber cs v)
      else if k = ''seller'' then map_option (\<lambda>x c. c\<lparr> seller := x \<rparr>) (castString cs v)
      else if k = ''sellerType'' then map_option (\<lambda>x c. c\<lparr> sellerType := x \<rparr>) (castString cs v)
      else if k = ''status'' then map_option (\<lambda>x c. c\<lparr> status := x \<rparr>) (castString cs v)
      else if k = ''views'' then map_option (\<lambda>x c. c\<lparr> views := x \<rparr>) (castInteger cs v)
      else if k = ''inquiries'' then map_option (\<lambda>x c. c\<lparr> inquiries := x \<rparr>) (castInteger cs v)
      else if k = ''favorites'' then map_option (\<lambda>x c. c\<lparr> favorites := x \<rparr>) (castInteger cs v)
      else if k = ''listedAt'' then map_option (\<lambda>x c. c\<lparr> listedAt := x \<rparr>) (castDate cs v)
      else if k = ''lastUpdated'' then map_option (\<lambda>x c. c\<lparr> lastUpdated := x \<rparr>) (castDate cs v)
      else if k = ''soldAt'' then map_option (\<lambda>x c. c\<lparr> soldAt := Some x \<rparr>) (castDate cs v)
      else if k = ''featured'' then map_option (\<lambda>x c. c\<lparr> featured := x \<rparr>) (castBoolean cs v)
      else if k = ''urgent'' then map_option (\<lambda>x c. c\<lparr> urgent := x \<rparr>) (castBoolean cs v)
      else Some (\<lambda>c. c))"

fun cast_set :: "casts \<Rightarrow> payload \<Rightarrow> (car \<Rightarrow> car) option" where
  \<comment> \<open>the whole \<open>$set\<close> object, cast once; \<open>None\<close> is the store's cast error\<close>
  "cast_set cs [] = Some (\<lambda>c. c)"
| "cast_set cs (kv # kvs) =
     (case set_path cs (fst kv) (snd kv) of None \<Rightarrow> None
      | Some f \<Rightarrow> (case cast_set cs kvs of None \<Rightarrow> None | Some g \<Rightarrow> Some (\<lambda>c. g (f c))))"

definition matches :: "string list \<Rightarrow> string \<Rightarrow> car \<Rightarrow> bool" where
  \<comment> \<open>the filter \<open>{ _id: { $in: carIds }, seller: vendorId }\<close>\<close>
  "matches carIds vendorId c = (car_id c \<in> set carIds \<and> seller c = vendorId)"

definition updateMany :: "int \<Rightarrow> store \<Rightarrow> (car \<Rightarrow> bool) \<Rightarrow> (car \<Rightarrow> car) \<Rightarrow> store \<times> nat" where
  \<comment> \<open>every matching document gets the \<open>$set\<close> and a new \<open>updatedAt\<close>; \<open>modifiedCount\<close>
      counts the documents that the write changed\<close>
  "updateMany now cars flt f =
     (map (\<lambda>c. if flt c then (f c)\<lparr> updatedAt := now \<rparr> else c) cars,
      length (filter (\<lambda>c. flt c \<and> (f c)\<lparr> updatedAt := now \<rparr> \<noteq> c) cars))"

definition bulk_update ::
    "bool \<Rightarrow> int \<Rightarrow> casts \<Rightarrow> store \<Rightarrow> string \<Rightarrow> string \<Rightarrow> string list \<Rightarrow> payload option \<Rightarrow> outcome" where
  "bulk_update io now cs cars vendorId userRole carIds updates =
     (if userRole \<noteq> ''vendor'' then \<lparr> code = 403, emitted = [], db = cars \<rparr>
      else if carIds = [] then \<lparr> code = 400, emitted = [], db = cars \<rparr>
      else
        (case updates of
           None \<Rightarrow> \<lparr> code = 500, emitted = [], db = cars \<rparr>
         | Some ups \<Rightarrow>
             let updateData = updateData_of ups in
             if updateData = [] then \<lparr> code = 400, emitted = [], db = cars \<rparr>
             else
               (case cast_set cs updateData of
                  None \<Rightarrow> \<lparr> code = 500, emitted = [], db = cars \<rparr>
                | Some f \<Rightarrow>
                    let result = updateMany now cars (matches carIds vendorId) f in
                    (case getIO io of
                       Inl e \<Rightarrow> \<lparr> code = 500, emitted = [], db = fst result \<rparr>
                     | Inr _ \<Rightarrow>
                         \<lparr> code = 200,
                           emitted = [\<lparr> room = Some (''user_'' @ vendorId),
                                        event_name = ''inventoryUpdate'',
                                        data = [(''updatedCount'', JNum (of_nat (snd result))),
                                                (''updates'', JObj updateData)] \<rparr>],
                           db = fst result \<rparr>))))"

subsection \<open>Comparing a collection before and after a write\<close>

definition other_fields :: "car \<Rightarrow> car" where
  \<comment> \<open>the listing with status, featured, urgent, price and \<open>updatedAt\<close> blanked: two
      listings agree on every other field exactly when their \<open>other_fields\<close> are equal\<close>
  "other_fields c =
     c\<lparr> status := [], featured := False, urgent := False, price := 0, updatedAt := 0 \<rparr>"

definition changed :: "store \<Rightarrow> store \<Rightarrow> nat" where
  \<comment> \<open>the number of positions at which the two collections hold different documents\<close>
  "changed cars cars' = length (filter (\<lambda>p. fst p \<noteq> snd p) (zip cars cars'))"

subsection \<open>Matching the seller in an aggregation pipeline\<close>

text \<open>
  The dashboard and the recommendations start their pipelines with
  \<open>{ $match: { seller: vendorId } }\<close>, where \<open>vendorId\<close> is \<open>req.user.id\<close>, a string.
  A pipeline is not cast against the schema, so the store compares the ObjectId in \<open>seller\<close>
  with a string, and values of two different types are not equal.
\<close>

datatype field_value = ObjectId string | StringValue string

definition aggregate_match_seller :: "string \<Rightarrow> car \<Rightarrow> bool" where
  "aggregate_match_seller vendorId c = (ObjectId (seller c) = StringValue vendorId)"

subsection \<open>GET /api/vendors/dashboard\<close>

record status_group =
  group_id :: string
  group_count :: rat
  group_totalValue :: rat
  group_totalViews :: rat
  group_totalInquiries :: rat

definition group_of :: "car list \<Rightarrow> string \<Rightarrow> status_group" where
  \<comment> \<open>the accumulators of \<open>$group\<close> for one status, over the seller's listings\<close>
  "group_of mine st =
     (let g = filter (\<lambda>c. status c = st) mine in
      \<lparr> group_id = st,
        group_count = of_nat (length g),
        group_totalValue = sum_list (map price g),
        group_totalViews = of_int (sum_list (map views g)),
        group_totalInquiries = of_int (sum_list (map inquiries g)) \<rparr>)"

definition overview :: "store \<Rightarrow> string \<Rightarrow> status_group list" where
  \<comment> \<open>\<open>$match\<close> on the seller, \<open>$group\<close> by status: one group for each status that occurs\<close>
  "overview cars vendorId =
     (let mine = filter (aggregate_match_seller vendorId) cars in
      map (group_of mine) (remdups (map status mine)))"

record stats =
  active :: rat
  sold :: rat
  pending :: rat
  inactive :: rat
  totalValue :: rat
  avgPrice :: rat
  totalViews :: rat
  totalInquiries :: rat

definition set_stat :: "string \<Rightarrow> rat \<Rightarrow> stats \<Rightarrow> stats" where
  \<comment> \<open>\<open>stats[key] = v\<close>; a key that is none of the eight adds a property nothing reads\<close>
  "set_stat k v s =
     (if k = ''active'' then s\<lparr> active := v \<rparr>
      else if k = ''sold'' then s\<lparr> sold := v \<rparr>
      else if k = ''pending'' then s\<lparr> pending := v \<rparr>
      else if k = ''inactive'' then s\<lparr> inactive := v \<rparr>
      else if k = ''totalValue'' then s\<lparr> totalValue := v \<rparr>
      else if k = ''avgPrice'' then s\<lparr> avgPrice := v \<rparr>
      else if k = ''totalViews'' then s\<lparr> totalViews := v \<rparr>
      else if k = ''totalInquiries'' then s\<lparr> totalInquiries := v \<rparr>
      else s)"

definition add_item :: "status_group \<Rightarrow> stats \<Rightarrow> stats" where
  \<comment> \<open>the body of \<open>overview.forEach\<close>\<close>
  "add_item item s =
     (let s1 = set_stat (group_id item) (group_count item) s;
          s2 = s1\<lparr> totalValue := totalValue s1 + group_totalValue item \<rparr>;
          s3 = s2\<lparr> totalViews := totalViews s2 + group_totalViews item \<rparr>
      in s3\<lparr> totalInquiries := totalInquiries s3 + group_totalInquiries item \<rparr>)"

definition stats0 :: stats where
  "stats0 = \<lparr> active = 0, sold = 0, pending = 0, inactive = 0, totalValue = 0, avgPrice = 0,
              totalViews = 0, totalInquiries = 0 \<rparr>"

definition dashboard_stats :: "store \<Rightarrow> string \<Rightarrow> stats" where
  "dashboard_stats cars vendorId =
     (let s = fold add_item (overview cars vendorId) stats0;
          totalCars = active s + sold s + pending s + inactive s
      in s\<lparr> avgPrice := (if totalCars > 0 then totalValue s / totalCars else 0) \<rparr>)"

definition conversionRate :: "stats \<Rightarrow> string" where
  "conversionRate s =
     (if totalInquiries s > 0
      then toFixed1 (js_times (js_div (sold s) (totalInquiries s)) 100)
      else ''0'')"

definition dashboard_conversionRate :: "store \<Rightarrow> string \<Rightarrow> string" where
  \<comment> \<open>\<open>insights.conversionRate\<close> of the response\<close>
  "dashboard_conversionRate cars vendorId = conversionRate (dashboard_stats cars vendorId)"

subsection \<open>GET /api/vendors/recommendations: the pricing insights\<close>

definition comparable :: "car \<Rightarrow> car \<Rightarrow> bool" where
  \<comment> \<open>the \<open>$match\<close> inside the \<open>$lookup\<close>: \<open>d\<close> is matched for the vendor's listing \<open>c\<close>\<close>
  "comparable c d =
     (make_field d = make_field c \<and> model d = model c \<and>
      year d \<ge> year c - 2 \<and> year d \<le> year c + 2 \<and> status d = ''active'')"

definition avgMarketPrice :: "store \<Rightarrow> car \<Rightarrow> rat option" where
  \<comment> \<open>\<open>$group\<close> with \<open>$avg\<close>: no group, and so no value, when nothing is matched\<close>
  "avgMarketPrice cars c =
     (let ms = filter (comparable c) cars in
      if ms = [] then None else Some (sum_list (map price ms) / of_nat (length ms)))"

record insight =
  insight_car :: car
  marketPrice :: "rat option"
  priceDiff :: "rat option"

definition addFields :: "store \<Rightarrow> car \<Rightarrow> insight" where
  "addFields cars c =
     \<lparr> insight_car = c,
       marketPrice = avgMarketPrice cars c,
       priceDiff = map_option (\<lambda>m. price c - m) (avgMarketPrice cars c) \<rparr>"

definition flagged :: "insight \<Rightarrow> bool" where
  \<comment> \<open>the second \<open>$match\<close>: a market price, and a difference over 5000 or under -3000\<close>
  "flagged i =
     (marketPrice i \<noteq> None \<and>
      (case priceDiff i of None \<Rightarrow> False | Some d \<Rightarrow> d > 5000 \<or> d < - 3000))"

definition pricingInsights :: "store \<Rightarrow> string \<Rightarrow> insight list" where
  "pricingInsights cars vendorId =
     take 5 (filter flagged
       (map (addFields cars)
          (filter (\<lambda>c. aggregate_match_seller vendorId c \<and> status c = ''active'') cars)))"

datatype suggestion = ReducePriceBy rat | IncreasePriceBy rat

record pricing_rec =
  rec_insight :: insight
  rec_suggestion :: suggestion
  rec_priority :: string

definition pricing_rec_of :: "insight \<Rightarrow> pricing_rec" where
  \<comment> \<open>the body of \<open>pricingInsights.map\<close>; a null difference counts as 0 in the comparisons\<close>
  "pricing_rec_of i =
     (let d = (case priceDiff i of None \<Rightarrow> 0 | Some d \<Rightarrow> d) in
      \<lparr> rec_insight = i,
        rec_suggestion = (if d > 0 then ReducePriceBy \<bar>d\<bar> else IncreasePriceBy \<bar>d\<bar>),
        rec_priority = (if \<bar>d\<bar> > 10000 then ''high'' else ''medium'') \<rparr>)"

definition pricing_recommendations :: "store \<Rightarrow> string \<Rightarrow> pricing_rec list" where
  \<comment> \<open>\<open>recommendations.pricing\<close> of the response\<close>
  "pricing_recommendations cars vendorId = map pricing_rec_of (pricingInsights cars vendorId)"

subsection \<open>The market mean as the specification words it\<close>

text \<open>
  The specification compares a listing with the comparable listings of other sellers. These
  two definitions follow its words; they are what the handler's \<open>comparable\<close> and
  \<open>avgMarketPrice\<close> are compared with.
\<close>

definition spec_comparable :: "string \<Rightarrow> car \<Rightarrow> car \<Rightarrow> bool" where
  "spec_comparable vendorId c d = (comparable c d \<and> seller d \<noteq> vendorId)"

definition spec_market_mean :: "store \<Rightarrow> string \<Rightarrow> car \<Rightarrow> rat option" where
  "spec_market_mean cars vendorId c =
     (let ms = filter (spec_comparable vendorId c) cars in
      if ms = [] then None else Some (sum_list (map price ms) / of_nat (length ms)))"

section \<open>Sample data\<close>

definition sample_car :: car where
  "sample_car =
     \<lparr> car_id = ''c1'', make_field = ''Toyota'', model = ''Camry'', year = 2020, price = 100,
       originalPrice = Some 100, priceHistory = [\<lparr> entry_price = 100, entry_date = 0 \<rparr>],
       vehicleDetails_exteriorColor = Some ''black'',
       location = \<lparr> city = ''Austin'', state = ''TX'' \<rparr>, seller = ''v1'', sellerType = ''dealer'',
       status = ''active'', views = 0, inquiries = 4, favorites = 0, listedAt = 0,
       lastUpdated = 0, soldAt = None, featured = False, urgent = False, createdAt = 0,
       updatedAt = 0 \<rparr>"

definition price_only :: "rat \<Rightarrow> car_update" where
  \<comment> \<open>the body \<open>{ price: p }\<close>\<close>
  "price_only p =
     \<lparr> u_make = None, u_model = None, u_year = None, u_price = Some p, u_originalPrice = None,
       u_priceHistory = None, u_exteriorColor = None, u_location = None, u_seller = None,
       u_sellerType = None, u_status = None, u_views = None, u_inquiries = None,
       u_favorites = None, u_listedAt = None, u_soldAt = None, u_featured = None,
       u_urgent = None \<rparr>"

definition sample_body :: car_create where
  "sample_body =
     \<lparr> n_make = ''Toyota'', n_model = ''Camry'', n_year = 2020, n_price = 100,
       n_city = ''Austin'', n_state = ''TX'', n_images = [''https://img/1.png''] \<rparr>"

text \<open>Casts that accept a value of the matching JSON type and nothing else.\<close>

definition strict_casts :: casts where
  "strict_casts =
     \<lparr> castString = (\<lambda>v. case v of JStr x \<Rightarrow> Some x | _ \<Rightarrow> None),
       castNumber = (\<lambda>v. case v of JNum x \<Rightarrow> Some x | _ \<Rightarrow> None),
       castInteger = (\<lambda>v. case v of JNum x \<Rightarrow> Some \<lfloor>x\<rfloor> | _ \<Rightarrow> None),
       castBoolean = (\<lambda>v. case v of JBool x \<Rightarrow> Some x | _ \<Rightarrow> None),
       castDate = (\<lambda>v. case v of JDate x \<Rightarrow> Some x | _ \<Rightarrow> None) \<rparr>"

definition two_sellers :: store where
  "two_sellers = [sample_car, sample_car\<lparr> car_id := ''c2'', seller := ''v2'' \<rparr>]"

definition sample_updates :: payload where
  "sample_updates = [(''status'', JStr ''inactive''), (''views'', JNum 999), (''price'', JNum 90)]"

definition dash_store :: store where
  "dash_store =
     [sample_car\<lparr> inquiries := 3 \<rparr>,
      sample_car\<lparr> car_id := ''c2'', status := ''sold'', inquiries := 5 \<rparr>,
      sample_car\<lparr> car_id := ''c3'', seller := ''v2'', status := ''sold'', inquiries := 7 \<rparr>,
      sample_car\<lparr> car_id := ''c4'', seller := ''v3'', inquiries := 0 \<rparr>]"

text \<open>
  The scenario of the specification: a vendor's active listing at 35000, one comparable
  listing of another seller at 28000, and a listing three model years away.
\<close>

definition scenario :: store where
  "scenario =
     [sample_car\<lparr> price := 35000 \<rparr>,
      sample_car\<lparr> car_id := ''c2'', seller := ''v2'', year := 2022, price := 28000 \<rparr>,
      sample_car\<lparr> car_id := ''c3'', seller := ''v2'', year := 2023, price := 1000 \<rparr>]"

section \<open>Rounding to the nearest double\<close>

lemma round_even_error: "\<bar>of_int (round_even y) - y\<bar> \<le> (1 / 2 :: rat)"
proof -
  have "of_int \<lfloor>y\<rfloor> \<le> y" "y < of_int \<lfloor>y\<rfloor> + 1" by linarith+
  then show ?thesis
    by (auto simp: round_even_def Let_def abs_le_iff)
qed

lemma quantum_pos: "0 < quantum x"
  by (simp add: quantum_def)

lemma nearest_double_error: "\<bar>nearest_double x - x\<bar> \<le> quantum x / 2"
proof -
  let ?q = "quantum x"
  have q: "0 < ?q" by (rule quantum_pos)
  have "\<bar>of_int (round_even (x / ?q)) - x / ?q\<bar> * ?q \<le> 1 / 2 * ?q"
    using round_even_error [of "x / ?q"] q by (intro mult_right_mono) simp_all
  moreover have "\<bar>of_int (round_even (x / ?q)) - x / ?q\<bar> * ?q =
      \<bar>of_int (round_even (x / ?q)) * ?q - x\<bar>"
  proof -
    have "(of_int (round_even (x / ?q)) - x / ?q) * ?q = of_int (round_even (x / ?q)) * ?q - x"
      using q by (simp add: left_diff_distrib)
    then have "\<bar>of_int (round_even (x / ?q)) * ?q - x\<bar> =
        \<bar>of_int (round_even (x / ?q)) - x / ?q\<bar> * \<bar>?q\<bar>"
      by (simp only: abs_mult [symmetric])
    with q show ?thesis by simp
  qed
  ultimately show ?thesis by (simp add: nearest_double_def)
qed

lemma binary_exponent_bounds:
  assumes "x \<noteq> 0"
  shows "power_int 2 (binary_exponent x) \<le> \<bar>x\<bar>" and "\<bar>x\<bar> < power_int 2 (binary_exponent x + 1)"
proof -
  obtain a b where ab: "quotient_of \<bar>x\<bar> = (a, b)" by (cases "quotient_of \<bar>x\<bar>")
  then have b: "0 < b" and x: "\<bar>x\<bar> = of_int a / of_int b"
    by (auto dest: quotient_of_denom_pos quotient_of_div)
  from assms have "0 < \<bar>x\<bar>" by simp
  with x b have a: "0 < a" by (simp add: zero_less_divide_iff)
  let ?k = "bitlen a - bitlen b"
  from bitlen_bounds [OF a] have a1: "(2::rat) ^ nat (bitlen a - 1) \<le> of_int a"
    and a2: "of_int a < (2::rat) ^ nat (bitlen a)"
    by (metis of_int_le_iff of_int_numeral of_int_power, metis of_int_less_iff of_int_numeral of_int_power)
  from bitlen_bounds [OF b] have b1: "(2::rat) ^ nat (bitlen b - 1) \<le> of_int b"
    and b2: "of_int b < (2::rat) ^ nat (bitlen b)"
    by (metis of_int_le_iff of_int_numeral of_int_power, metis of_int_less_iff of_int_numeral of_int_power)
  have la: "1 \<le> bitlen a" and lb: "1 \<le> bitlen b"
    using a b bitlen_eq_zero_iff [of a] bitlen_eq_zero_iff [of b] bitlen_nonneg [of a] bitlen_nonneg [of b]
    by linarith+
  have pa1: "power_int (2::rat) (bitlen a - 1) \<le> of_int a" and pa2: "of_int a < power_int (2::rat) (bitlen a)"
    using a1 a2 la by (simp_all add: power_int_def)
  have pb1: "power_int (2::rat) (bitlen b - 1) \<le> of_int b" and pb2: "of_int b < power_int (2::rat) (bitlen b)"
    using b1 b2 lb by (simp_all add: power_int_def)
  have lo: "power_int 2 (?k - 1) < \<bar>x\<bar>"
  proof -
    have "power_int (2::rat) (?k - 1) = power_int 2 (bitlen a - 1) / power_int 2 (bitlen b)"
      by (simp add: power_int_diff)
    also have "\<dots> \<le> of_int a / power_int 2 (bitlen b)"
      using pa1 by (intro divide_right_mono) simp_all
    also have "\<dots> < of_int a / of_int b"
      using pb2 a b by (intro divide_strict_left_mono) simp_all
    finally show ?thesis by (simp add: x)
  qed
  have hi: "\<bar>x\<bar> < power_int 2 (?k + 1)"
  proof -
    have "of_int a / of_int b < power_int (2::rat) (bitlen a) / of_int b"
      using pa2 b by (intro divide_strict_right_mono) simp_all
    also have "\<dots> \<le> power_int 2 (bitlen a) / power_int 2 (bitlen b - 1)"
      using pb1 b by (intro divide_left_mono) simp_all
    also have "\<dots> = power_int 2 (?k + 1)"
      by (simp add: power_int_diff [symmetric] algebra_simps)
    finally show ?thesis by (simp add: x)
  qed
  have e: "binary_exponent x = (if power_int 2 ?k \<le> \<bar>x\<bar> then ?k else ?k - 1)"
    by (simp add: binary_exponent_def ab)
  show "power_int 2 (binary_exponent x) \<le> \<bar>x\<bar>"
    using lo by (simp add: e)
  show "\<bar>x\<bar> < power_int 2 (binary_exponent x + 1)"
    using hi by (simp add: e not_le)
qed

lemma nearest_double_relative_error:
  assumes "power_int 2 (- 1022) \<le> \<bar>x\<bar>"
  shows "\<bar>nearest_double x - x\<bar> \<le> \<bar>x\<bar> / 2 ^ 53"
proof -
  from assms have nz: "x \<noteq> 0" by auto
  have "power_int (2::rat) (- 1022) < power_int 2 (binary_exponent x + 1)"
    using assms binary_exponent_bounds(2) [OF nz] by linarith
  then have "- 1022 < binary_exponent x + 1"
    using power_int_increasing [of "binary_exponent x + 1" "- 1022" "2::rat"] by linarith
  then have m: "max (binary_exponent x - 52) (- 1074) = binary_exponent x - 52" by simp
  have "quantum x = power_int 2 (binary_exponent x) / 2 ^ 52"
    by (simp add: quantum_def m power_int_diff)
  also have "\<dots> \<le> \<bar>x\<bar> / 2 ^ 52"
    using binary_exponent_bounds(1) [OF nz] by (intro divide_right_mono) simp_all
  finally have "quantum x / 2 \<le> \<bar>x\<bar> / 2 ^ 53" by simp
  with nearest_double_error [of x] show ?thesis by linarith
qed


section \<open>Leads: urgency and lead score\<close>

text \<open>
  Claim C4. The urgency of a lead is high at 31 days listed, medium at 20 and at 30, and low
  at 5. At exactly 14 days the handler answers low: its test is \<open>daysListed > 14\<close>, where
  the claim (and the API guide, "Medium: Listed 14-30 days") has medium.
\<close>

theorem urgency_boundaries:
  "urgencyScore 31 = ''high'' \<and> urgencyScore 20 = ''medium'' \<and> urgencyScore 5 = ''low'' \<and>
   urgencyScore 30 = ''medium'' \<and> urgencyScore 14 = ''low'' \<and>
   urgency (lead_of (14 * day_ms) sample_car) = ''low''"
  by (simp add: urgencyScore_def lead_of_def daysListed_def day_ms_def sample_car_def)

section \<open>Price alerts\<close>

text \<open>
  Claim C1. A price update is announced to the location room and the make room of the listing,
  with the old price, the new price and the percent drop, when the percent change is low
  enough, and not at all otherwise: 100 to 94 is announced, 100 to 97 is not. The handler
  tests \<open>priceChange < -5\<close>, so a drop of exactly 5 percent, 100 to 95, is not announced
  either, although the price is written; the comment on the test reads "5% or more price drop".
\<close>

theorem price_alert_threshold:
  "notifyPriceChange True [sample_car] ''c1'' 100 95 = Inr [] \<and>
   emitted (update_car True 7 [sample_car] ''c1'' ''v1'' (price_only 95)) = [] \<and>
   price (hd (db (update_car True 7 [sample_car] ''c1'' ''v1'' (price_only 95)))) = 95 \<and>
   emitted (update_car True 7 [sample_car] ''c1'' ''v1'' (price_only 97)) = [] \<and>
   emitted (update_car True 7 [sample_car] ''c1'' ''v1'' (price_only 94)) =
     [\<lparr> room = Some ''austin_tx'', event_name = ''priceAlert'',
        data = [(''car'', JDoc sample_car), (''oldPrice'', JNum 100), (''newPrice'', JNum 94),
                (''discount'', JStr ''6.0'')] \<rparr>,
      \<lparr> room = Some ''make_toyota'', event_name = ''priceAlert'',
        data = [(''car'', JDoc sample_car), (''oldPrice'', JNum 100), (''newPrice'', JNum 94),
                (''discount'', JStr ''6.0'')] \<rparr>]"
  by code_simp

section \<open>Listings that are not found\<close>

text \<open>
  Claim C9. Each notification that looks a listing up by its identifier returns normally and
  emits nothing when there is no such listing, whether or not the socket server is up.
\<close>

theorem not_found_is_skipped:
  assumes "findById cars carId = None"
  shows "notifyPriceChange io cars carId oldPrice newPrice = Inr [] \<and>
         notifyInquiry io cars carId inquirerName = Inr [] \<and>
         notifyNewInquiry io now cars vendorId carId inquirerName = Inr [] \<and>
         notifyPerformanceMilestone io now cars vendorId carId milestone = Inr []"
  using assms
  by (simp add: notifyPriceChange_def notifyInquiry_def notifyNewInquiry_def
      notifyPerformanceMilestone_def)

theorem not_found_is_skipped_witness:
  "notifyPriceChange False [sample_car] ''c9'' 100 90 = Inr [] \<and>
   notifyInquiry False [sample_car] ''c9'' ''Ada'' = Inr [] \<and>
   notifyNewInquiry False 7 [sample_car] ''v1'' ''c9'' ''Ada'' = Inr [] \<and>
   notifyPerformanceMilestone False 7 [sample_car] ''v1'' ''c9'' ''multiple_inquiries'' = Inr []"
proof -
  have "findById [sample_car] ''c9'' = None"
    by (simp add: findById_def sample_car_def)
  then show ?thesis
    by (rule not_found_is_skipped)
qed

section \<open>The inquiry milestone\<close>

lemma find_update_first:
  "find P xs = Some x \<Longrightarrow> P (f x) \<Longrightarrow> find P (update_first P f xs) = Some (f x)"
  by (induction xs) (auto split: if_splits)

lemma findById_car_id: "findById cars i = Some c \<Longrightarrow> car_id c = i"
  by (auto simp: findById_def dest: find_Some_iff[THEN iffD1])

lemma findById_findByIdAndUpdate:
  assumes "findById cars i = Some c" and "car_id (f c) = car_id c"
  shows "findById (findByIdAndUpdate cars i f) i = Some (f c)"
proof -
  from assms(1) have "car_id c = i"
    by (rule findById_car_id)
  with assms show ?thesis
    unfolding findById_def findByIdAndUpdate_def
    by (intro find_update_first) simp_all
qed

text \<open>
  Claim C2. When an inquiry is recorded on a listing, with the socket server up, the handler
  emits the two inquiry events and then one milestone event, to the seller's room, exactly
  when the count after the increment is 5; at any other count it emits no milestone event.
\<close>

theorem milestone_at_five:
  assumes "findById cars carId = Some c" and "io"
  shows "map room (filter (\<lambda>e. event_name e = ''performanceMilestone'')
                    (emitted (record_inquiry io now cars carId userName)))
           = (if inquiries c + 1 = 5 then [Some (''user_'' @ seller c)] else []) \<and>
         map event_name (emitted (record_inquiry io now cars carId userName))
           = (if inquiries c + 1 = 5
              then [''newInquiry'', ''newInquiry'', ''performanceMilestone'']
              else [''newInquiry'', ''newInquiry''])"
proof -
  let ?c1 = "c\<lparr> inquiries := inquiries c + 1, updatedAt := now \<rparr>"
  let ?cars1 = "findByIdAndUpdate cars carId
                  (\<lambda>d. d\<lparr> inquiries := inquiries d + 1, updatedAt := now \<rparr>)"
  have id: "car_id c = carId"
    using assms(1) by (rule findById_car_id)
  have f1: "findById ?cars1 carId = Some ?c1"
    using assms(1) by (rule findById_findByIdAndUpdate) simp
  show ?thesis
    using assms f1 id
    by (simp add: record_inquiry_def Let_def notifyInquiry_def notifyNewInquiry_def
        notifyPerformanceMilestone_def emitToUser_def emitToRoom_def and_then_def)
qed

theorem milestone_at_five_witness:
  "map room (filter (\<lambda>e. event_name e = ''performanceMilestone'')
       (emitted (record_inquiry True 7 [sample_car] ''c1'' ''Ada''))) = [Some ''user_v1''] \<and>
   map room (filter (\<lambda>e. event_name e = ''performanceMilestone'')
       (emitted (record_inquiry True 7 [sample_car\<lparr> inquiries := 5 \<rparr>] ''c1'' ''Ada''))) = []"
proof -
  have a: "findById [sample_car] ''c1'' = Some sample_car"
    by (simp add: findById_def sample_car_def)
  have b: "findById [sample_car\<lparr> inquiries := 5 \<rparr>] ''c1'' = Some (sample_car\<lparr> inquiries := 5 \<rparr>)"
    by (simp add: findById_def sample_car_def)
  show ?thesis
    using milestone_at_five [OF a, of True 7 "''Ada''"] milestone_at_five [OF b, of True 7 "''Ada''"]
    by (simp add: sample_car_def)
qed

section \<open>Bulk update\<close>

lemma updateData_of_idem: "updateData_of (updateData_of ups) = updateData_of ups"
  by (simp add: updateData_of_def)

lemma set_path_whitelisted:
  assumes "k \<in> set validUpdates" and "set_path cs k v = Some f"
  shows "other_fields (f c) = other_fields c"
  using assms
  by (auto simp: validUpdates_def set_path_def other_fields_def)

lemma cast_set_whitelisted:
  assumes "\<forall>kv\<in>set kvs. fst kv \<in> set validUpdates" and "cast_set cs kvs = Some f"
  shows "other_fields (f c) = other_fields c"
  using assms
proof (induction kvs arbitrary: f c)
  case Nil
  then show ?case by auto
next
  case (Cons kv kvs)
  from Cons.prems(2) obtain f1 g where f1: "set_path cs (fst kv) (snd kv) = Some f1"
    and g: "cast_set cs kvs = Some g" and f: "f = (\<lambda>c. g (f1 c))"
    by (auto split: option.splits)
  from Cons.prems(1) have "fst kv \<in> set validUpdates" by simp
  then have "other_fields (f1 c) = other_fields c"
    using f1 by (rule set_path_whitelisted)
  moreover have "other_fields (g (f1 c)) = other_fields (f1 c)"
    using Cons.prems(1) g by (intro Cons.IH) simp_all
  ultimately show ?case by (simp add: f)
qed

lemma other_fields_updatedAt [simp]: "other_fields (c\<lparr> updatedAt := t \<rparr>) = other_fields c"
  by (simp add: other_fields_def)

lemma bulk_update_db:
  "db (bulk_update io now cs cars vendorId userRole carIds updates) = cars \<or>
   (\<exists>ups f. updates = Some ups \<and> cast_set cs (updateData_of ups) = Some f \<and>
      db (bulk_update io now cs cars vendorId userRole carIds updates) =
        map (\<lambda>c. if matches carIds vendorId c then (f c)\<lparr> updatedAt := now \<rparr> else c) cars)"
  by (simp add: bulk_update_def Let_def updateMany_def split: option.splits sum.splits)

lemma set_path_status:
  "set_path cs k v = Some f \<Longrightarrow>
   status (f c) = status c \<or> (k = ''status'' \<and> castString cs v = Some (status (f c)))"
  by (auto simp: set_path_def split: if_splits)

lemma cast_set_status:
  "cast_set cs kvs = Some f \<Longrightarrow>
   status (f c) = status c \<or> (\<exists>v. (''status'', v) \<in> set kvs \<and> castString cs v = Some (status (f c)))"
proof (induction kvs arbitrary: f c)
  case Nil
  then show ?case by auto
next
  case (Cons kv kvs)
  from Cons.prems obtain f1 g where f1: "set_path cs (fst kv) (snd kv) = Some f1"
    and g: "cast_set cs kvs = Some g" and f: "f = (\<lambda>c. g (f1 c))"
    by (auto split: option.splits)
  from Cons.IH [OF g, of "f1 c"] set_path_status [OF f1, of c]
  show ?case
    unfolding f by (cases kv) auto
qed

lemma set_path_featured:
  "set_path cs k v = Some f \<Longrightarrow>
   featured (f c) = featured c \<or> (k = ''featured'' \<and> castBoolean cs v = Some (featured (f c)))"
  by (auto simp: set_path_def split: if_splits)

lemma cast_set_featured:
  "cast_set cs kvs = Some f \<Longrightarrow>
   featured (f c) = featured c \<or> (\<exists>v. (''featured'', v) \<in> set kvs \<and> castBoolean cs v = Some (featured (f c)))"
proof (induction kvs arbitrary: f c)
  case Nil
  then show ?case by auto
next
  case (Cons kv kvs)
  from Cons.prems obtain f1 g where f1: "set_path cs (fst kv) (snd kv) = Some f1"
    and g: "cast_set cs kvs = Some g" and f: "f = (\<lambda>c. g (f1 c))"
    by (auto split: option.splits)
  from Cons.IH [OF g, of "f1 c"] set_path_featured [OF f1, of c]
  show ?case
    unfolding f by (cases kv) auto
qed

lemma set_path_urgent:
  "set_path cs k v = Some f \<Longrightarrow>
   urgent (f c) = urgent c \<or> (k = ''urgent'' \<and> castBoolean cs v = Some (urgent (f c)))"
  by (auto simp: set_path_def split: if_splits)

lemma cast_set_urgent:
  "cast_set cs kvs = Some f \<Longrightarrow>
   urgent (f c) = urgent c \<or> (\<exists>v. (''urgent'', v) \<in> set kvs \<and> castBoolean cs v = Some (urgent (f c)))"
proof (induction kvs arbitrary: f c)
  case Nil
  then show ?case by auto
next
  case (Cons kv kvs)
  from Cons.prems obtain f1 g where f1: "set_path cs (fst kv) (snd kv) = Some f1"
    and g: "cast_set cs kvs = Some g" and f: "f = (\<lambda>c. g (f1 c))"
    by (auto split: option.splits)
  from Cons.IH [OF g, of "f1 c"] set_path_urgent [OF f1, of c]
  show ?case
    unfolding f by (cases kv) auto
qed

lemma set_path_price:
  "set_path cs k v = Some f \<Longrightarrow>
   price (f c) = price c \<or> (k = ''price'' \<and> castNumber cs v = Some (price (f c)))"
  by (auto simp: set_path_def split: if_splits)

lemma cast_set_price:
  "cast_set cs kvs = Some f \<Longrightarrow>
   price (f c) = price c \<or> (\<exists>v. (''price'', v) \<in> set kvs \<and> castNumber cs v = Some (price (f c)))"
proof (induction kvs arbitrary: f c)
  case Nil
  then show ?case by auto
next
  case (Cons kv kvs)
  from Cons.prems obtain f1 g where f1: "set_path cs (fst kv) (snd kv) = Some f1"
    and g: "cast_set cs kvs = Some g" and f: "f = (\<lambda>c. g (f1 c))"
    by (auto split: option.splits)
  from Cons.IH [OF g, of "f1 c"] set_path_price [OF f1, of c]
  show ?case
    unfolding f by (cases kv) auto
qed

lemma changed_map: "changed cars (map g cars) = length (filter (\<lambda>c. c \<noteq> g c) cars)"
proof -
  have "zip cars (map g cars) = map (\<lambda>c. (c, g c)) cars"
    by (induction cars) simp_all
  then show ?thesis
    by (simp add: changed_def filter_map comp_def)
qed

lemma bulk_update_emitted:
  "(code (bulk_update io now cs cars vendorId userRole carIds updates) \<noteq> 200 \<and>
    emitted (bulk_update io now cs cars vendorId userRole carIds updates) = []) \<or>
   (\<exists>ups. updates = Some ups \<and>
      code (bulk_update io now cs cars vendorId userRole carIds updates) = 200 \<and>
      emitted (bulk_update io now cs cars vendorId userRole carIds updates) =
        [\<lparr> room = Some (''user_'' @ vendorId), event_name = ''inventoryUpdate'',
           data = [(''updatedCount'',
                    JNum (of_nat (changed cars
                      (db (bulk_update io now cs cars vendorId userRole carIds updates))))),
                   (''updates'', JObj (updateData_of ups))] \<rparr>])"
proof -
  have c: "length (filter (\<lambda>c. matches carIds vendorId c \<and> (f c)\<lparr> updatedAt := now \<rparr> \<noteq> c) cars) =
        changed cars (map (\<lambda>c. if matches carIds vendorId c then (f c)\<lparr> updatedAt := now \<rparr> else c) cars)"
    for f
    unfolding changed_map by (intro arg_cong[where f = length] filter_cong) auto
  show ?thesis
    by (simp add: bulk_update_def Let_def updateMany_def c getIO_def split: option.splits)
qed

lemma two_sellers_bulk:
  "bulk_update True 9 strict_casts two_sellers ''v1'' ''vendor'' [''c1'', ''c2''] (Some sample_updates) =
     \<lparr> code = 200,
       emitted = [\<lparr> room = Some ''user_v1'', event_name = ''inventoryUpdate'',
                    data = [(''updatedCount'', JNum 1),
                            (''updates'', JObj [(''status'', JStr ''inactive''), (''price'', JNum 90)])] \<rparr>],
       db = [sample_car\<lparr> status := ''inactive'', price := 90, updatedAt := 9 \<rparr>,
             sample_car\<lparr> car_id := ''c2'', seller := ''v2'' \<rparr>] \<rparr>"
  by code_simp

text \<open>
  Claim C6. A bulk update leaves every listing of another seller as it was, so a request that
  names only listings of other sellers changes nothing. When the request succeeds, one
  inventory-update event goes to the vendor's own room; it carries the number of listings
  that the write changed and the fields that were applied. A request that fails emits nothing.
\<close>

theorem bulk_update_ownership:
  "length (db (bulk_update io now cs cars vendorId userRole carIds updates)) = length cars \<and>
   (\<forall>i<length cars. seller (cars ! i) \<noteq> vendorId \<longrightarrow>
      db (bulk_update io now cs cars vendorId userRole carIds updates) ! i = cars ! i) \<and>
   ((\<forall>c\<in>set cars. car_id c \<in> set carIds \<longrightarrow> seller c \<noteq> vendorId) \<longrightarrow>
      db (bulk_update io now cs cars vendorId userRole carIds updates) = cars) \<and>
   (code (bulk_update io now cs cars vendorId userRole carIds updates) = 200 \<longrightarrow>
      (\<exists>ups. updates = Some ups \<and>
         emitted (bulk_update io now cs cars vendorId userRole carIds updates) =
           [\<lparr> room = Some (''user_'' @ vendorId), event_name = ''inventoryUpdate'',
              data = [(''updatedCount'',
                       JNum (of_nat (changed cars
                         (db (bulk_update io now cs cars vendorId userRole carIds updates))))),
                      (''updates'', JObj (updateData_of ups))] \<rparr>])) \<and>
   (code (bulk_update io now cs cars vendorId userRole carIds updates) \<noteq> 200 \<longrightarrow>
      emitted (bulk_update io now cs cars vendorId userRole carIds updates) = [])"
proof -
  let ?out = "bulk_update io now cs cars vendorId userRole carIds updates"
  have len: "length (db ?out) = length cars"
    using bulk_update_db [of io now cs cars vendorId userRole carIds updates] by auto
  have frame: "\<forall>i<length cars. seller (cars ! i) \<noteq> vendorId \<longrightarrow> db ?out ! i = cars ! i"
    using bulk_update_db [of io now cs cars vendorId userRole carIds updates]
    by (auto simp: matches_def)
  have none: "(\<forall>c\<in>set cars. car_id c \<in> set carIds \<longrightarrow> seller c \<noteq> vendorId) \<longrightarrow> db ?out = cars"
  proof
    assume a: "\<forall>c\<in>set cars. car_id c \<in> set carIds \<longrightarrow> seller c \<noteq> vendorId"
    then have "map (\<lambda>c. if matches carIds vendorId c then g c else c) cars = cars" for g
      by (intro map_idI) (auto simp: matches_def)
    with bulk_update_db [of io now cs cars vendorId userRole carIds updates]
    show "db ?out = cars" by auto
  qed
  from len frame none bulk_update_emitted [of io now cs cars vendorId userRole carIds updates]
  show ?thesis by auto
qed

theorem bulk_update_ownership_witness:
  "db (bulk_update True 9 strict_casts two_sellers ''v1'' ''vendor'' [''c1'', ''c2'']
         (Some sample_updates)) ! 1 = two_sellers ! 1 \<and>
   emitted (bulk_update True 9 strict_casts two_sellers ''v1'' ''vendor'' [''c1'', ''c2'']
         (Some sample_updates)) =
     [\<lparr> room = Some ''user_v1'', event_name = ''inventoryUpdate'',
        data = [(''updatedCount'', JNum 1),
                (''updates'', JObj [(''status'', JStr ''inactive''), (''price'', JNum 90)])] \<rparr>] \<and>
   db (bulk_update True 9 strict_casts two_sellers ''v3'' ''vendor'' [''c1'', ''c2'']
         (Some sample_updates)) = two_sellers"
proof -
  have s: "seller (two_sellers ! 1) \<noteq> ''v1''" "(1::nat) < length two_sellers"
    by (simp_all add: two_sellers_def sample_car_def)
  have n: "\<forall>c\<in>set two_sellers. car_id c \<in> set [''c1'', ''c2''] \<longrightarrow> seller c \<noteq> ''v3''"
    by (simp add: two_sellers_def sample_car_def)
  from s bulk_update_ownership
     [of True 9 strict_casts two_sellers "''v1''" "''vendor''" "[''c1'', ''c2'']" "Some sample_updates"]
  have a: "db (bulk_update True 9 strict_casts two_sellers ''v1'' ''vendor'' [''c1'', ''c2'']
         (Some sample_updates)) ! 1 = two_sellers ! 1" by blast
  from n bulk_update_ownership
     [of True 9 strict_casts two_sellers "''v3''" "''vendor''" "[''c1'', ''c2'']" "Some sample_updates"]
  have b: "db (bulk_update True 9 strict_casts two_sellers ''v3'' ''vendor'' [''c1'', ''c2'']
         (Some sample_updates)) = two_sellers" by blast
  from a b show ?thesis
    by (simp add: two_sellers_bulk)
qed

text \<open>
  Claim C10. The properties of \<open>updates\<close> outside the whitelist make no difference to the
  outcome of a bulk update. Whatever the request, a listing keeps every field other than
  status, featured, urgent, price and the store's \<open>updatedAt\<close>, and a new value of one of
  the four is the cast of the property of that name in \<open>updates\<close>. When \<open>updates\<close> has no
  whitelisted property, a vendor's request is answered 400, emits nothing and leaves the
  collection as it was.
\<close>

theorem bulk_update_whitelist:
  "bulk_update io now cs cars vendorId userRole carIds (Some ups) =
     bulk_update io now cs cars vendorId userRole carIds (Some (updateData_of ups)) \<and>
   length (db (bulk_update io now cs cars vendorId userRole carIds (Some ups))) = length cars \<and>
   (\<forall>i<length cars.
      other_fields (db (bulk_update io now cs cars vendorId userRole carIds (Some ups)) ! i) =
        other_fields (cars ! i) \<and>
      (status (db (bulk_update io now cs cars vendorId userRole carIds (Some ups)) ! i) = status (cars ! i) \<or>
       (\<exists>v. (''status'', v) \<in> set ups \<and> castString cs v =
          Some (status (db (bulk_update io now cs cars vendorId userRole carIds (Some ups)) ! i)))) \<and>
      (featured (db (bulk_update io now cs cars vendorId userRole carIds (Some ups)) ! i) = featured (cars ! i) \<or>
       (\<exists>v. (''featured'', v) \<in> set ups \<and> castBoolean cs v =
          Some (featured (db (bulk_update io now cs cars vendorId userRole carIds (Some ups)) ! i)))) \<and>
      (urgent (db (bulk_update io now cs cars vendorId userRole carIds (Some ups)) ! i) = urgent (cars ! i) \<or>
       (\<exists>v. (''urgent'', v) \<in> set ups \<and> castBoolean cs v =
          Some (urgent (db (bulk_update io now cs cars vendorId userRole carIds (Some ups)) ! i)))) \<and>
      (price (db (bulk_update io now cs cars vendorId userRole carIds (Some ups)) ! i) = price (cars ! i) \<or>
       (\<exists>v. (''price'', v) \<in> set ups \<and> castNumber cs v =
          Some (price (db (bulk_update io now cs cars vendorId userRole carIds (Some ups)) ! i))))) \<and>
   (userRole = ''vendor'' \<and> updateData_of ups = [] \<longrightarrow>
      code (bulk_update io now cs cars vendorId userRole carIds (Some ups)) = 400 \<and>
      emitted (bulk_update io now cs cars vendorId userRole carIds (Some ups)) = [] \<and>
      db (bulk_update io now cs cars vendorId userRole carIds (Some ups)) = cars)"
proof -
  let ?out = "bulk_update io now cs cars vendorId userRole carIds (Some ups)"
  have same: "?out = bulk_update io now cs cars vendorId userRole carIds (Some (updateData_of ups))"
    by (simp add: bulk_update_def updateData_of_idem)
  have rejected: "userRole = ''vendor'' \<and> updateData_of ups = [] \<longrightarrow>
      code ?out = 400 \<and> emitted ?out = [] \<and> db ?out = cars"
    by (simp add: bulk_update_def)
  from bulk_update_db [of io now cs cars vendorId userRole carIds "Some ups"]
  have "length (db ?out) = length cars \<and>
   (\<forall>i<length cars.
      other_fields (db ?out ! i) = other_fields (cars ! i) \<and>
      (status (db ?out ! i) = status (cars ! i) \<or>
       (\<exists>v. (''status'', v) \<in> set ups \<and> castString cs v = Some (status (db ?out ! i)))) \<and>
      (featured (db ?out ! i) = featured (cars ! i) \<or>
       (\<exists>v. (''featured'', v) \<in> set ups \<and> castBoolean cs v = Some (featured (db ?out ! i)))) \<and>
      (urgent (db ?out ! i) = urgent (cars ! i) \<or>
       (\<exists>v. (''urgent'', v) \<in> set ups \<and> castBoolean cs v = Some (urgent (db ?out ! i)))) \<and>
      (price (db ?out ! i) = price (cars ! i) \<or>
       (\<exists>v. (''price'', v) \<in> set ups \<and> castNumber cs v = Some (price (db ?out ! i)))))"
  proof
    assume "db ?out = cars"
    then show ?thesis by simp
  next
    assume "\<exists>ups' f. Some ups = Some ups' \<and> cast_set cs (updateData_of ups') = Some f \<and>
      db ?out = map (\<lambda>c. if matches carIds vendorId c then (f c)\<lparr> updatedAt := now \<rparr> else c) cars"
    then obtain f where f: "cast_set cs (updateData_of ups) = Some f"
      and d: "db ?out = map (\<lambda>c. if matches carIds vendorId c then (f c)\<lparr> updatedAt := now \<rparr> else c) cars"
      by auto
    have wl: "\<forall>kv\<in>set (updateData_of ups). fst kv \<in> set validUpdates"
      by (simp add: updateData_of_def)
    have sub: "\<And>k v. (k, v) \<in> set (updateData_of ups) \<Longrightarrow> (k, v) \<in> set ups"
      by (simp add: updateData_of_def)
    have o: "other_fields (f c) = other_fields c" for c
      using wl f by (rule cast_set_whitelisted)
    have st: "status (f c) = status c \<or>
        (\<exists>v. (''status'', v) \<in> set ups \<and> castString cs v = Some (status (f c)))" for c
      using cast_set_status [OF f, of c] sub by blast
    have fe: "featured (f c) = featured c \<or>
        (\<exists>v. (''featured'', v) \<in> set ups \<and> castBoolean cs v = Some (featured (f c)))" for c
      using cast_set_featured [OF f, of c] sub by blast
    have ur: "urgent (f c) = urgent c \<or>
        (\<exists>v. (''urgent'', v) \<in> set ups \<and> castBoolean cs v = Some (urgent (f c)))" for c
      using cast_set_urgent [OF f, of c] sub by blast
    have pr: "price (f c) = price c \<or>
        (\<exists>v. (''price'', v) \<in> set ups \<and> castNumber cs v = Some (price (f c)))" for c
      using cast_set_price [OF f, of c] sub by blast
    show ?thesis
      unfolding d using o st fe ur pr by simp
  qed
  with same rejected show ?thesis by blast
qed

theorem bulk_update_whitelist_witness:
  "views (db (bulk_update True 9 strict_casts two_sellers ''v1'' ''vendor'' [''c1'', ''c2'']
            (Some sample_updates)) ! 0) = 0 \<and>
   code (bulk_update True 9 strict_casts two_sellers ''v1'' ''vendor'' [''c1'', ''c2'']
            (Some [(''views'', JNum 999)])) = 400 \<and>
   db (bulk_update True 9 strict_casts two_sellers ''v1'' ''vendor'' [''c1'', ''c2'']
            (Some [(''views'', JNum 999)])) = two_sellers"
proof -
  have v: "views (other_fields c) = views c" for c
    by (simp add: other_fields_def)
  have l: "(0::nat) < length two_sellers"
    by (simp add: two_sellers_def)
  from l bulk_update_whitelist
     [of True 9 strict_casts two_sellers "''v1''" "''vendor''" "[''c1'', ''c2'']" sample_updates]
  have "other_fields (db (bulk_update True 9 strict_casts two_sellers ''v1'' ''vendor''
            [''c1'', ''c2''] (Some sample_updates)) ! 0) = other_fields (two_sellers ! 0)"
    by blast
  then have "views (db (bulk_update True 9 strict_casts two_sellers ''v1'' ''vendor''
            [''c1'', ''c2''] (Some sample_updates)) ! 0) = views (two_sellers ! 0)"
    by (metis v)
  then have a: "views (db (bulk_update True 9 strict_casts two_sellers ''v1'' ''vendor''
            [''c1'', ''c2''] (Some sample_updates)) ! 0) = 0"
    by (simp add: two_sellers_def sample_car_def)
  have e: "updateData_of [(''views'', JNum 999)] = []"
    by (simp add: updateData_of_def validUpdates_def)
  from e bulk_update_whitelist
     [of True 9 strict_casts two_sellers "''v1''" "''vendor''" "[''c1'', ''c2'']"
         "[(''views'', JNum 999)]"]
  have "code (bulk_update True 9 strict_casts two_sellers ''v1'' ''vendor'' [''c1'', ''c2'']
            (Some [(''views'', JNum 999)])) = 400 \<and>
        db (bulk_update True 9 strict_casts two_sellers ''v1'' ''vendor'' [''c1'', ''c2'']
            (Some [(''views'', JNum 999)])) = two_sellers"
    by blast
  with a show ?thesis by blast
qed

section \<open>Status changes and the sale date\<close>

lemma findById_in_set: "findById cars i = Some c \<Longrightarrow> c \<in> set cars"
  by (auto simp: findById_def dest: find_Some_iff[THEN iffD1])












section \<open>The conversion rate of the dashboard\<close>

lemma overview_empty: "overview cars vendorId = []"
  by (simp add: overview_def aggregate_match_seller_def)

lemma dashboard_conversionRate_zero: "dashboard_conversionRate cars vendorId = ''0''"
  by (simp add: dashboard_conversionRate_def conversionRate_def dashboard_stats_def overview_empty
      stats0_def)

lemma rate_of_one_in_eight: "toFixed1 (js_times (js_div 1 8) 100) = ''12.5''"
  by code_simp

text \<open>
  Claim C8. The vendor v1 of \<open>dash_store\<close> has an active listing with 3 inquiries and a
  sold one with 5, so one sale for 8 inquiries, which is 12.5 percent. The dashboard answers
  "0": the overview pipeline matches \<open>seller\<close> against the string \<open>req.user.id\<close>,
  no listing passes, every count stays 0, and the rate is the string of the zero branch. The
  queries of the same handler that go through \<open>Car.find\<close> are cast and do find the
  vendor's listings.
\<close>

theorem dashboard_rate_is_zero:
  "dashboard_conversionRate dash_store ''v1'' = ''0'' \<and>
   map (\<lambda>c. (status c, inquiries c)) (filter (\<lambda>c. seller c = ''v1'') dash_store) =
     [(''active'', 3), (''sold'', 5)] \<and>
   toFixed1 (js_times (js_div 1 8) 100) = ''12.5''"
  by (simp add: dashboard_conversionRate_zero rate_of_one_in_eight) (simp add: dash_store_def sample_car_def)

section \<open>Pricing recommendations\<close>

lemma pricingInsights_empty: "pricingInsights cars vendorId = []"
  by (simp add: pricingInsights_def aggregate_match_seller_def)

lemma own_listing_in_market_mean:
  "avgMarketPrice scenario (scenario ! 0) = Some 31500 \<and>
   spec_market_mean scenario ''v1'' (scenario ! 0) = Some 28000"
  by code_simp

text \<open>
  Claim C7. In \<open>scenario\<close> the vendor v1 has an active listing priced 35000, and the
  comparable listings of other sellers have a mean price of 28000, so the listing is 7000
  over the market and a recommendation is due. The handler recommends nothing: the pipeline
  matches \<open>seller\<close> against the string \<open>req.user.id\<close> and no listing passes its first
  stage.
\<close>

theorem no_pricing_recommendation:
  "pricing_recommendations scenario ''v1'' = [] \<and>
   map (\<lambda>c. (seller c, status c, price c)) [scenario ! 0] = [(''v1'', ''active'', 35000)] \<and>
   spec_market_mean scenario ''v1'' (scenario ! 0) = Some 28000"
  using own_listing_in_market_mean
  by (simp add: pricing_recommendations_def pricingInsights_empty) (simp add: scenario_def sample_car_def)

section \<open>The lead score\<close>

lemma nearest_double_zero: "nearest_double 0 = 0"
  by (simp add: nearest_double_def round_even_def)

lemma js_number_zero: "js_number 0 = Finite 0"
  by (simp add: js_number_def nearest_double_zero)

lemma binary_exponent_less:
  assumes "d \<noteq> 0" and "\<bar>d\<bar> < 2 ^ 1024"
  shows "binary_exponent d < 1024"
proof (rule ccontr)
  assume "\<not> binary_exponent d < 1024"
  then have "power_int (2::rat) 1024 \<le> power_int 2 (binary_exponent d)"
    by (intro power_int_increasing) simp_all
  with binary_exponent_bounds(1) [OF assms(1)] assms(2) show False by simp
qed

lemma double_in_range:
  assumes "1 / 2 ^ 60 \<le> x" and "x \<le> 2 ^ 70"
  shows "js_number x = Finite (nearest_double x)"
    and "\<bar>nearest_double x - x\<bar> \<le> x / 2 ^ 53"
proof -
  have "power_int (2::rat) (- 1022) \<le> power_int 2 (- 60)"
    by (intro power_int_increasing) simp_all
  also have "\<dots> = 1 / 2 ^ 60"
    by (simp add: power_int_def field_simps)
  finally have "power_int 2 (- 1022) \<le> \<bar>x\<bar>" using assms(1) by simp
  then have "\<bar>nearest_double x - x\<bar> \<le> \<bar>x\<bar> / 2 ^ 53"
    by (rule nearest_double_relative_error)
  moreover have "(0::rat) < 1 / 2 ^ 60" by simp
  with assms(1) have x: "0 < x" by linarith
  ultimately show e: "\<bar>nearest_double x - x\<bar> \<le> x / 2 ^ 53" by simp
  have "\<bar>nearest_double x\<bar> \<le> x + x / 2 ^ 53" using e x by linarith
  also have "\<dots> \<le> 2 * x" using x by simp
  also have "\<dots> \<le> 2 ^ 71" using assms(2) by simp
  also have "\<dots> < (2::rat) ^ 1024" by (intro power_strict_increasing) simp_all
  finally have "\<bar>nearest_double x\<bar> < 2 ^ 1024" .
  then have "nearest_double x \<noteq> 0 \<longrightarrow> binary_exponent (nearest_double x) < 1024"
    using binary_exponent_less by blast
  then show "js_number x = Finite (nearest_double x)"
    by (auto simp: js_number_def Let_def)
qed


lemma floor_rat_numeral [simp]:
  "\<lfloor>numeral a / numeral b :: rat\<rfloor> = numeral a div numeral b"
  by (metis floor_divide_of_int_eq of_int_numeral)

lemma floor_rat_one [simp]:
  "\<lfloor>1 / numeral b :: rat\<rfloor> = 1 div numeral b"
  by (metis floor_divide_of_int_eq of_int_numeral of_int_1)

lemma tenth_finite:
  assumes "0 \<le> n" and "rat_of_int n \<le> 2 ^ 70"
  shows "js_div (of_int n) 10 = Finite (nearest_double (of_int n / 10))"
proof (cases "n = 0")
  case True
  then show ?thesis by (simp add: js_div_def js_number_zero nearest_double_zero)
next
  case False
  with assms(1) have "1 \<le> rat_of_int n" by linarith
  then have "1 / 2 ^ 60 \<le> rat_of_int n / 10" by simp
  moreover have "rat_of_int n / 10 \<le> 2 ^ 70" using assms(2) by simp
  ultimately have "js_number (rat_of_int n / 10) = Finite (nearest_double (rat_of_int n / 10))"
    by (rule double_in_range(1))
  then show ?thesis by (simp add: js_div_def)
qed

lemma leadScore_zero_inquiries:
  assumes "0 < views c" and "inquiries c = 0"
  shows "leadScore (lead_of now c) = Finite 0"
  using assms
  by (simp add: lead_of_def inquiryRate_def js_div_def js_number_zero Math_round_def)

lemma leadScore_positive:
  fixes c :: car
  defines "q \<equiv> rat_of_int (inquiries c) / rat_of_int (views c)"
  assumes v: "0 < views c" "views c \<le> 2 ^ 53" and i: "0 < inquiries c" "inquiries c \<le> 2 ^ 53"
  shows "\<exists>n. leadScore (lead_of now c) = Finite (nearest_double (rat_of_int n / 10)) \<and>
             \<bar>rat_of_int n / 10 - q * 100\<bar> \<le> 1 / 20 + q * 100 / 2 ^ 50"
proof -
  have iv: "1 \<le> rat_of_int (inquiries c)" "rat_of_int (inquiries c) \<le> 2 ^ 53"
           "1 \<le> rat_of_int (views c)" "rat_of_int (views c) \<le> 2 ^ 53"
    using v i by (simp_all flip: of_int_1_le_iff)
  have qlo: "1 / 2 ^ 53 \<le> q" unfolding q_def
    using iv by (intro frac_le) simp_all
  have qhi: "q \<le> 2 ^ 53"
  proof -
    have "q \<le> rat_of_int (inquiries c) / 1" unfolding q_def
      using iv by (intro divide_left_mono) simp_all
    with iv(2) show ?thesis by simp
  qed
  define q1 where "q1 = nearest_double q"
  have d1: "js_number q = Finite q1" and e1: "\<bar>q1 - q\<bar> \<le> q / 2 ^ 53"
    unfolding q1_def using qlo qhi by (intro double_in_range; simp)+
  define r where "r = nearest_double (q1 * 100)"
  have p53: "(2::rat) ^ 53 = 9007199254740992" "(2::rat) ^ 50 = 1125899906842624"
    "(2::rat) ^ 70 = 1180591620717411303424" "(2::rat) ^ 60 = 1152921504606846976" by simp_all
  note qlo' = qlo [unfolded p53] and qhi' = qhi [unfolded p53] and e1' = e1 [unfolded p53]
  have b1: "q / 2 \<le> q1" "q1 \<le> 2 * q" using e1' qlo' by linarith+
  have d2: "js_number (q1 * 100) = Finite r" and e2: "\<bar>r - q1 * 100\<bar> \<le> q1 * 100 / 2 ^ 53"
    unfolding r_def p53 using b1 qlo' qhi' by (intro double_in_range [unfolded p53]; linarith)+
  note e2' = e2 [unfolded p53]
  define t where "t = nearest_double (r * 10)"
  have b2: "q1 * 50 \<le> r" "r \<le> q1 * 200" using e2' b1 qlo' by linarith+
  have d3: "js_number (r * 10) = Finite t" and e3: "\<bar>t - r * 10\<bar> \<le> r * 10 / 2 ^ 53"
    unfolding t_def p53 using b1 b2 qlo' qhi' by (intro double_in_range [unfolded p53]; linarith)+
  note e3' = e3 [unfolded p53]
  define n where "n = Math_round t"
  have b3: "r * 5 \<le> t" "t \<le> r * 20" using e3' b2 b1 qlo' by linarith+
  have n1: "rat_of_int n \<le> t + 1 / 2" "t + 1 / 2 < rat_of_int n + 1"
    unfolding n_def Math_round_def by linarith+
  have tpos: "0 < t" using b3 b2 b1 qlo' by linarith
  have n0: "0 \<le> n"
  proof -
    have "0 < rat_of_int n + 1" using n1(2) tpos by linarith
    then have "0 < n + 1" by (metis of_int_0_less_iff of_int_add of_int_1)
    then show ?thesis by simp
  qed
  have nhi: "rat_of_int n \<le> 2 ^ 70" unfolding p53 using n1(1) b3 b2 b1 qhi' by linarith
  have rate: "inquiryRate c = Finite r"
    using v(1) d1 d2 by (simp add: inquiryRate_def js_div_def q_def)
  have "leadScore (lead_of now c) = js_div (of_int n) 10"
    by (simp add: lead_of_def rate d3 n_def)
  also have "\<dots> = Finite (nearest_double (rat_of_int n / 10))"
    using n0 nhi by (rule tenth_finite)
  finally have L: "leadScore (lead_of now c) = Finite (nearest_double (rat_of_int n / 10))" .
  have qpos: "0 < q" using qlo' by linarith
  have "\<bar>rat_of_int n / 10 - q * 100\<bar> \<le> 1 / 20 + q * 100 / 2 ^ 50"
    unfolding p53 using e1' e2' e3' n1 qpos by linarith
  with L show ?thesis by blast
qed

lemma lead_40_3: "leadScore (lead_of 0 (sample_car\<lparr> views := 40, inquiries := 3 \<rparr>)) = Finite (15 / 2)"
  by code_simp

text \<open>
  Claim C5, as the handler has it. The lead score is 0 when the listing has no views, and
  the quotient is not taken then. With views, and both counters within \<open>2 ^ 53\<close>, the
  score is the double nearest to a whole number of tenths \<open>n / 10\<close>, and \<open>n / 10\<close> is
  within a twentieth, plus the rounding error of the three operations on doubles, of
  \<open>inquiries / views * 100\<close>.
\<close>

theorem leadScore_in_doubles:
  "(views c \<le> 0 \<longrightarrow> leadScore (lead_of now c) = Finite 0) \<and>
   (0 < views c \<and> views c \<le> 2 ^ 53 \<and> 0 \<le> inquiries c \<and> inquiries c \<le> 2 ^ 53 \<longrightarrow>
      (\<exists>n. leadScore (lead_of now c) = Finite (nearest_double (rat_of_int n / 10)) \<and>
           \<bar>rat_of_int n / 10 - rat_of_int (inquiries c) / rat_of_int (views c) * 100\<bar>
             \<le> 1 / 20 + rat_of_int (inquiries c) / rat_of_int (views c) * 100 / 2 ^ 50))"
proof (intro conjI impI)
  assume "views c \<le> 0"
  then show "leadScore (lead_of now c) = Finite 0"
    by (simp add: lead_of_def inquiryRate_def js_number_zero js_div_def Math_round_def)
next
  assume a: "0 < views c \<and> views c \<le> 2 ^ 53 \<and> 0 \<le> inquiries c \<and> inquiries c \<le> 2 ^ 53"
  show "\<exists>n. leadScore (lead_of now c) = Finite (nearest_double (rat_of_int n / 10)) \<and>
           \<bar>rat_of_int n / 10 - rat_of_int (inquiries c) / rat_of_int (views c) * 100\<bar>
             \<le> 1 / 20 + rat_of_int (inquiries c) / rat_of_int (views c) * 100 / 2 ^ 50"
  proof (cases "inquiries c = 0")
    case True
    with a have "leadScore (lead_of now c) = Finite 0"
      by (intro leadScore_zero_inquiries) simp_all
    with True show ?thesis
      by (intro exI [of _ 0]) (simp add: nearest_double_zero)
  next
    case False
    with a show ?thesis
      by (intro leadScore_positive) simp_all
  qed
qed

theorem leadScore_in_doubles_witness:
  "leadScore (lead_of 0 sample_car) = Finite 0 \<and>
   leadScore (lead_of 0 (sample_car\<lparr> views := 40, inquiries := 3 \<rparr>)) = Finite (15 / 2) \<and>
   (\<exists>n. Finite (15 / 2) = Finite (nearest_double (rat_of_int n / 10)) \<and>
        \<bar>rat_of_int n / 10 - 3 / 40 * 100\<bar> \<le> 1 / 20 + 3 / 40 * 100 / 2 ^ 50)"
proof -
  have v: "views sample_car \<le> 0" by (simp add: sample_car_def)
  have w: "0 < views (sample_car\<lparr> views := 40, inquiries := 3 \<rparr>) \<and>
           views (sample_car\<lparr> views := 40, inquiries := 3 \<rparr>) \<le> 2 ^ 53 \<and>
           0 \<le> inquiries (sample_car\<lparr> views := 40, inquiries := 3 \<rparr>) \<and>
           inquiries (sample_car\<lparr> views := 40, inquiries := 3 \<rparr>) \<le> 2 ^ 53"
    by simp
  from v leadScore_in_doubles [of sample_car 0]
  have a: "leadScore (lead_of 0 sample_car) = Finite 0" by blast
  from w leadScore_in_doubles [of "sample_car\<lparr> views := 40, inquiries := 3 \<rparr>" 0]
  have "\<exists>n. leadScore (lead_of 0 (sample_car\<lparr> views := 40, inquiries := 3 \<rparr>)) =
              Finite (nearest_double (rat_of_int n / 10)) \<and>
        \<bar>rat_of_int n / 10 - rat_of_int (inquiries (sample_car\<lparr> views := 40, inquiries := 3 \<rparr>)) /
             rat_of_int (views (sample_car\<lparr> views := 40, inquiries := 3 \<rparr>)) * 100\<bar>
          \<le> 1 / 20 + rat_of_int (inquiries (sample_car\<lparr> views := 40, inquiries := 3 \<rparr>)) /
             rat_of_int (views (sample_car\<lparr> views := 40, inquiries := 3 \<rparr>)) * 100 / 2 ^ 50"
    by blast
  then have "\<exists>n. Finite (15 / 2) = Finite (nearest_double (rat_of_int n / 10)) \<and>
        \<bar>rat_of_int n / 10 - 3 / 40 * 100\<bar> \<le> 1 / 20 + 3 / 40 * 100 / 2 ^ 50"
    by (simp add: lead_40_3)
  with a lead_40_3 show ?thesis by blast
qed

lemma lead_80_23:
  "leadScore (lead_of 0 (sample_car\<lparr> views := 80, inquiries := 23 \<rparr>)) =
     Finite (nearest_double (287 / 10))"
  by code_simp

lemma doubles_287_288: "nearest_double (287 / 10) \<noteq> nearest_double (288 / 10)"
  by code_simp

text \<open>
  Claim C5 as it is stated fails where the exact rate lies on a tie. With 23 inquiries for 80
  views the rate is 28.75, which rounds to 28.8 at one decimal place; in doubles the product
  \<open>0.2875 * 100\<close> falls just under 28.75 and the handler answers 28.7.
\<close>

theorem leadScore_below_the_tie:
  "leadScore (lead_of 0 (sample_car\<lparr> views := 80, inquiries := 23 \<rparr>)) =
     Finite (nearest_double (287 / 10)) \<and>
   rat_of_int (round (23 / 80 * 100 * 10 :: rat)) / 10 = 288 / 10 \<and>
   nearest_double (287 / 10) \<noteq> nearest_double (288 / 10)"
proof -
  have "round (23 / 80 * 100 * 10 :: rat) = 288" by (simp add: round_def)
  with lead_80_23 doubles_287_288 show ?thesis by simp
qed

end
